theory Spec2Isabelle
  imports Main "HOL-Library.Sublist"
begin

section \<open>Values exchanged with the external collaborators\<close>

text \<open>
  The repository is glue code: two HTTP handlers and a queue worker that call the PDF
  loader, the text splitter, the embedding model, the vector store, the queue, the object
  storage and the chat-completion API. None of those is code of the repository, so each
  call is an entry of an environment that says how the call ends (a value, or a thrown
  error), and every call a handler makes is recorded, in order, in a trace of events.

  A JavaScript error carries a \<open>message\<close>; an axios error also carries the
  upstream payload as \<open>error.response.data\<close>, which is absent on every other error.
\<close>

record js_error =
  message :: string
  response_data :: "string option"

text \<open>A LangChain document: its text and its metadata (kept opaque).\<close>

record document =
  pageContent :: string
  metadata :: string

text \<open>
  \<open>job.data\<close>: the cloud-storage server enqueues \<open>{filename, url}\<close>, the
  direct-upload server enqueues \<open>{filename, destination, path}\<close>. A field that is
  not there reads as \<open>undefined\<close>, here \<open>None\<close>.
\<close>

record job_data =
  filename :: string
  url :: "string option"
  destination :: "string option"
  path :: "string option"

text \<open>The options object passed to the vector store.\<close>

record qdrant_args =
  qdrant_url :: string
  apiKey :: "string option"
  collectionName :: string

text \<open>The body and headers of the chat-completion request.\<close>

record chat_request =
  endpoint :: string
  model :: string
  messages :: "(string \<times> string) list"
  headers :: "(string \<times> string) list"

text \<open>Lines written with \<open>console.log\<close> and \<open>console.error\<close>.\<close>

datatype log_line =
    Processing_job job_data
  | PDF_downloaded string
  | Loaded_docs nat
  | No_text_extracted
  | Split_into_chunks nat
  | Connecting_to_Qdrant "string option"
  | Added_chunks nat
  | Collection_not_found
  | Created_collection nat
  | Temp_file_deleted
  | Error_processing_PDF js_error
  | Cloudinary_upload_error js_error
  | Api_key "string option"
  | Error_in_chat string

text \<open>One event per call that leaves the process, written when the call is made.\<close>

datatype event =
    ConsoleLog log_line
  | ConsoleError log_line
  | AxiosGet string
  | WriteFileSync string string
  | PdfLoad "string option"
  | SplitDocuments nat nat "document list"
  | NewEmbeddings string
  | FromExistingCollection qdrant_args
  | AddDocuments qdrant_args "document list"
  | FromDocuments "document list" qdrant_args
  | UnlinkSync string
  | CloudinaryUpload string
  | QueueAdd string job_data
  | RetrieverInvoke qdrant_args nat string
  | AxiosPost chat_request

text \<open>
  What the handler reads of a chat-completion response: \<open>response.data.choices\<close>,
  \<open>None\<close> when the field is absent, and of every choice its \<open>message.content\<close>, or that
  the choice has no \<open>message\<close>.
\<close>

datatype choice = No_message | Message string

text \<open>
  The environment: \<open>process.env\<close>, the two pure functions of Node's \<open>path\<close>
  module, and the outcome of every external call as a function of its arguments.
\<close>

record env =
  QDRANT_URL :: "string option"
  QDRANT_API_KEY :: "string option"
  DEEPSEEK_API_KEY :: "string option"
  SITE_URL :: "string option"
  APP_NAME :: "string option"
  path_basename :: "string \<Rightarrow> string"
  path_join :: "string \<Rightarrow> string \<Rightarrow> string"
  axios_get :: "string \<Rightarrow> js_error + string"
  writeFileSync :: "string \<Rightarrow> string \<Rightarrow> js_error + unit"
  pdf_load :: "string option \<Rightarrow> js_error + document list"
  splitDocuments :: "nat \<Rightarrow> nat \<Rightarrow> document list \<Rightarrow> js_error + document list"
  newEmbeddings :: "string \<Rightarrow> js_error + unit"
  fromExistingCollection :: "qdrant_args \<Rightarrow> js_error + unit"
  addDocuments :: "qdrant_args \<Rightarrow> document list \<Rightarrow> js_error + unit"
  fromDocuments :: "document list \<Rightarrow> qdrant_args \<Rightarrow> js_error + unit"
  unlinkSync :: "string \<Rightarrow> js_error + unit"
  cloudinary_upload :: "string \<Rightarrow> js_error + string"
  queue_add :: "string \<Rightarrow> job_data \<Rightarrow> js_error + unit"
  retriever_invoke :: "qdrant_args \<Rightarrow> nat \<Rightarrow> string \<Rightarrow> js_error + document list"
  axios_post :: "chat_request \<Rightarrow> js_error + choice list option"

section \<open>Control flow: sequencing, throw, try/catch\<close>

text \<open>
  A block of statements maps the trace so far to its outcome (\<open>Inl\<close> a thrown error,
  \<open>Inr\<close> the value) and the trace extended by the events of the block. A throw keeps
  the events already written: nothing is rolled back.
\<close>

type_synonym 'a prog = "event list \<Rightarrow> (js_error + 'a) \<times> event list"

definition ret :: "'a \<Rightarrow> 'a prog" where
  "ret v = (\<lambda>tr. (Inr v, tr))"

definition throw :: "js_error \<Rightarrow> 'a prog" where
  "throw e = (\<lambda>tr. (Inl e, tr))"

definition bnd :: "'a prog \<Rightarrow> ('a \<Rightarrow> 'b prog) \<Rightarrow> 'b prog" where
  "bnd m k = (\<lambda>tr. case m tr of (Inl e, tr') \<Rightarrow> (Inl e, tr') | (Inr v, tr') \<Rightarrow> k v tr')"

definition try_catch :: "'a prog \<Rightarrow> (js_error \<Rightarrow> 'a prog) \<Rightarrow> 'a prog" where
  "try_catch m h = (\<lambda>tr. case m tr of (Inl e, tr') \<Rightarrow> h e tr' | (Inr v, tr') \<Rightarrow> (Inr v, tr'))"

definition emit :: "event \<Rightarrow> unit prog" where
  "emit ev = (\<lambda>tr. (Inr (), tr @ [ev]))"

text \<open>An external call: the event is written, then the call ends as the environment says.\<close>

definition call :: "event \<Rightarrow> js_error + 'a \<Rightarrow> 'a prog" where
  "call ev outcome = (\<lambda>tr. (outcome, tr @ [ev]))"

text \<open>\<open>new Error(msg)\<close>.\<close>

definition Error :: "string \<Rightarrow> js_error" where
  "Error msg = \<lparr>message = msg, response_data = None\<rparr>"

text \<open>\<open>x || d\<close> on a string that may be undefined: \<open>undefined\<close> and \<open>""\<close> are falsy.\<close>

definition or_default :: "string option \<Rightarrow> string \<Rightarrow> string" where
  "or_default x d = (case x of None \<Rightarrow> d | Some s \<Rightarrow> if s = [] then d else s)"

section \<open>The ingest worker\<close>

text \<open>The options object of all three vector-store calls of a worker (and of \<open>/chat\<close>).\<close>

definition qdrant :: "env \<Rightarrow> qdrant_args" where
  "qdrant env = \<lparr>qdrant_url = or_default (QDRANT_URL env) ''http://localhost:6333'',
                 apiKey = QDRANT_API_KEY env,
                 collectionName = ''pdf-docs''\<rparr>"

definition modelName :: string where
  "modelName = ''Xenova/all-MiniLM-L6-v2''"

text \<open>
  \<open>src/server/worker.js\<close>, first module (remote-download variant): the processor passed
  to \<open>new Worker("file-upload-queue", async (job) => ...)\<close>. The early \<open>return\<close> on
  an empty \<open>docs\<close> is the \<open>then\<close> branch below; everything after it is the
  \<open>else\<close> branch. \<open>!fileUrl\<close> holds for \<open>undefined\<close> and for the empty string.
  The block of the outer \<open>try\<close> is \<open>worker_download_try\<close>; the processor wraps it
  in the \<open>catch\<close> that logs the error and returns. \<open>tempFilePath\<close> is
  \<open>path.join("/tmp", path.basename(fileUrl))\<close>.
\<close>

definition tempFilePath :: "env \<Rightarrow> string \<Rightarrow> string" where
  "tempFilePath env fileUrl = path_join env ''/tmp'' (path_basename env fileUrl)"

definition worker_download_try :: "env \<Rightarrow> job_data \<Rightarrow> unit prog" where
  "worker_download_try env job =
     bnd (case url job of
            None \<Rightarrow> throw (Error ''No file URL provided in job data'')
          | Some u \<Rightarrow> if u = [] then throw (Error ''No file URL provided in job data'') else ret u) (\<lambda>fileUrl.
     bnd (call (AxiosGet fileUrl) (axios_get env fileUrl)) (\<lambda>response.
     let tempFilePath = tempFilePath env fileUrl in
     bnd (call (WriteFileSync tempFilePath response) (writeFileSync env tempFilePath response)) (\<lambda>_.
     bnd (emit (ConsoleLog (PDF_downloaded tempFilePath))) (\<lambda>_.
     bnd (call (PdfLoad (Some tempFilePath)) (pdf_load env (Some tempFilePath))) (\<lambda>docs.
     bnd (emit (ConsoleLog (Loaded_docs (length docs)))) (\<lambda>_.
     if docs = [] then emit (ConsoleError No_text_extracted)
     else
     bnd (call (SplitDocuments 1000 200 docs) (splitDocuments env 1000 200 docs)) (\<lambda>splitDocs.
     bnd (emit (ConsoleLog (Split_into_chunks (length splitDocs)))) (\<lambda>_.
     bnd (call (NewEmbeddings modelName) (newEmbeddings env modelName)) (\<lambda>embeddings.
     bnd (try_catch
           (bnd (emit (ConsoleLog (Connecting_to_Qdrant (QDRANT_URL env)))) (\<lambda>_.
            bnd (call (FromExistingCollection (qdrant env)) (fromExistingCollection env (qdrant env))) (\<lambda>vectorStore.
            bnd (call (AddDocuments (qdrant env) splitDocs) (addDocuments env (qdrant env) splitDocs)) (\<lambda>_.
            emit (ConsoleLog (Added_chunks (length splitDocs)))))))
           (\<lambda>err.
            bnd (emit (ConsoleLog Collection_not_found)) (\<lambda>_.
            bnd (call (FromDocuments splitDocs (qdrant env)) (fromDocuments env splitDocs (qdrant env))) (\<lambda>_.
            emit (ConsoleLog (Created_collection (length splitDocs))))))) (\<lambda>_.
     bnd (call (UnlinkSync tempFilePath) (unlinkSync env tempFilePath)) (\<lambda>_.
     emit (ConsoleLog Temp_file_deleted))))))))))))"

definition worker_download :: "env \<Rightarrow> job_data \<Rightarrow> unit prog" where
  "worker_download env job =
    bnd (emit (ConsoleLog (Processing_job job))) (\<lambda>_.
    try_catch (worker_download_try env job)
     (\<lambda>error. emit (ConsoleError (Error_processing_PDF error))))"

text \<open>
  \<open>src/server/worker.js\<close>, second module (direct-upload variant): the PDF is read
  from \<open>job.data.path\<close>; no file is written and none is removed.
\<close>

definition worker_local_try :: "env \<Rightarrow> job_data \<Rightarrow> unit prog" where
  "worker_local_try env job =
     bnd (call (PdfLoad (path job)) (pdf_load env (path job))) (\<lambda>docs.
     bnd (emit (ConsoleLog (Loaded_docs (length docs)))) (\<lambda>_.
     if docs = [] then emit (ConsoleError No_text_extracted)
     else
     bnd (call (SplitDocuments 1000 200 docs) (splitDocuments env 1000 200 docs)) (\<lambda>splitDocs.
     bnd (emit (ConsoleLog (Split_into_chunks (length splitDocs)))) (\<lambda>_.
     bnd (call (NewEmbeddings modelName) (newEmbeddings env modelName)) (\<lambda>embeddings.
     try_catch
      (bnd (call (FromExistingCollection (qdrant env)) (fromExistingCollection env (qdrant env))) (\<lambda>vectorStore.
       bnd (call (AddDocuments (qdrant env) splitDocs) (addDocuments env (qdrant env) splitDocs)) (\<lambda>_.
       emit (ConsoleLog (Added_chunks (length splitDocs))))))
      (\<lambda>err.
       bnd (emit (ConsoleLog Collection_not_found)) (\<lambda>_.
       bnd (call (FromDocuments splitDocs (qdrant env)) (fromDocuments env splitDocs (qdrant env))) (\<lambda>_.
       emit (ConsoleLog (Created_collection (length splitDocs)))))))))))"

definition worker_local :: "env \<Rightarrow> job_data \<Rightarrow> unit prog" where
  "worker_local env job =
    bnd (emit (ConsoleLog (Processing_job job))) (\<lambda>_.
    try_catch (worker_local_try env job)
     (\<lambda>error. emit (ConsoleError (Error_processing_PDF error))))"

text \<open>
  \<open>src/unnamed/part_002\<close> (direct-upload variant on an IORedis connection): as
  \<open>worker_local\<close>, with the line "Connecting to Qdrant" inside the inner \<open>try\<close>.
\<close>

definition worker_local_ioredis_try :: "env \<Rightarrow> job_data \<Rightarrow> unit prog" where
  "worker_local_ioredis_try env job =
     bnd (call (PdfLoad (path job)) (pdf_load env (path job))) (\<lambda>docs.
     bnd (emit (ConsoleLog (Loaded_docs (length docs)))) (\<lambda>_.
     if docs = [] then emit (ConsoleError No_text_extracted)
     else
     bnd (call (SplitDocuments 1000 200 docs) (splitDocuments env 1000 200 docs)) (\<lambda>splitDocs.
     bnd (emit (ConsoleLog (Split_into_chunks (length splitDocs)))) (\<lambda>_.
     bnd (call (NewEmbeddings modelName) (newEmbeddings env modelName)) (\<lambda>embeddings.
     try_catch
      (bnd (emit (ConsoleLog (Connecting_to_Qdrant (QDRANT_URL env)))) (\<lambda>_.
       bnd (call (FromExistingCollection (qdrant env)) (fromExistingCollection env (qdrant env))) (\<lambda>vectorStore.
       bnd (call (AddDocuments (qdrant env) splitDocs) (addDocuments env (qdrant env) splitDocs)) (\<lambda>_.
       emit (ConsoleLog (Added_chunks (length splitDocs)))))))
      (\<lambda>err.
       bnd (emit (ConsoleLog Collection_not_found)) (\<lambda>_.
       bnd (call (FromDocuments splitDocs (qdrant env)) (fromDocuments env splitDocs (qdrant env))) (\<lambda>_.
       emit (ConsoleLog (Created_collection (length splitDocs)))))))))))"

definition worker_local_ioredis :: "env \<Rightarrow> job_data \<Rightarrow> unit prog" where
  "worker_local_ioredis env job =
    bnd (emit (ConsoleLog (Processing_job job))) (\<lambda>_.
    try_catch (worker_local_ioredis_try env job)
     (\<lambda>error. emit (ConsoleError (Error_processing_PDF error))))"

section \<open>The HTTP service\<close>

text \<open>\<open>req.file\<close> as multer fills it in; \<open>None\<close> when the request has no file.\<close>

record multer_file =
  originalname :: string
  file_destination :: string
  file_path :: string

text \<open>The JSON bodies the handlers send.\<close>

datatype response_body =
    Error_body string
  | Error_details_body string string
  | Uploaded_url_body string string string
  | Uploaded_path_body string string string
  | Chat_body string "string list"

record http_response =
  status :: nat
  body :: response_body

text \<open>
  \<open>src/unnamed/part_000\<close>, \<open>POST /upload/pdf\<close> (cloud-storage variant). The bodies
  are \<open>{error}\<close>, and \<open>{message, file: {name, url}}\<close>.
\<close>

definition upload_pdf :: "env \<Rightarrow> multer_file option \<Rightarrow> http_response prog" where
  "upload_pdf env req_file =
    (case req_file of
       None \<Rightarrow> ret \<lparr>status = 400, body = Error_body ''No file uploaded''\<rparr>
     | Some f \<Rightarrow>
        try_catch
         (bnd (call (CloudinaryUpload (file_path f)) (cloudinary_upload env (file_path f))) (\<lambda>secure_url.
          let data = \<lparr>filename = originalname f, url = Some secure_url,
                      destination = None, path = None\<rparr> in
          bnd (call (QueueAdd ''file-ready'' data) (queue_add env ''file-ready'' data)) (\<lambda>_.
          ret \<lparr>status = 200,
               body = Uploaded_url_body ''File uploaded successfully'' (originalname f) secure_url\<rparr>)))
         (\<lambda>err.
          bnd (emit (ConsoleError (Cloudinary_upload_error err))) (\<lambda>_.
          ret \<lparr>status = 500, body = Error_body ''Failed to upload file''\<rparr>)))"

text \<open>
  \<open>src/unnamed/part_001\<close>, \<open>POST /upload/pdf\<close> (direct-upload variant): no
  \<open>try\<close> around the enqueue, so its error leaves the handler.
\<close>

definition upload_pdf_local :: "env \<Rightarrow> multer_file option \<Rightarrow> http_response prog" where
  "upload_pdf_local env req_file =
    (case req_file of
       None \<Rightarrow> ret \<lparr>status = 400, body = Error_body ''No file uploaded''\<rparr>
     | Some f \<Rightarrow>
        let data = \<lparr>filename = originalname f, url = None,
                    destination = Some (file_destination f), path = Some (file_path f)\<rparr> in
        bnd (call (QueueAdd ''file-ready'' data) (queue_add env ''file-ready'' data)) (\<lambda>_.
        ret \<lparr>status = 200,
             body = Uploaded_path_body ''File uploaded successfully'' (originalname f) (file_path f)\<rparr>))"

text \<open>\<open>Array.prototype.join\<close> and the line feed of the template literals.\<close>

fun join :: "string \<Rightarrow> string list \<Rightarrow> string" where
  "join sep [] = []"
| "join sep [x] = x"
| "join sep (x # y # ys) = x @ sep @ join sep (y # ys)"

definition LF :: string where
  "LF = [CHR 0x0A]"

text \<open>A template literal prints \<open>undefined\<close> as the word.\<close>

definition interpolate :: "string option \<Rightarrow> string" where
  "interpolate x = (case x of None \<Rightarrow> ''undefined'' | Some s \<Rightarrow> s)"

text \<open>\<open>SYSTEM_PROMPT\<close> of \<open>src/unnamed/part_000\<close>, with the literal's indentation.\<close>

definition SYSTEM_PROMPT :: "document list \<Rightarrow> string" where
  "SYSTEM_PROMPT docs =
     LF @ ''      You are a helpful AI Agent. Use the provided documents to answer user queries.''
     @ LF @ ''      Do not mention document sources in your answer.''
     @ LF @ ''      Context: '' @ join LF (map pageContent docs)
     @ LF @ ''    ''"

text \<open>\<open>SYSTEM_PROMPT\<close> of \<open>src/unnamed/part_001\<close>.\<close>

definition SYSTEM_PROMPT_local :: "document list \<Rightarrow> string" where
  "SYSTEM_PROMPT_local docs =
     LF @ ''      You are a helpful AI Agent. Use the provided documents to answer user queries.dont say in answer about document you get answer be professional''
     @ LF @ ''      Context, also dont answer question not in docs, only you can answer from docs and basic formal replies: ''
     @ join LF (map pageContent docs)
     @ LF @ ''    ''"

text \<open>The request sent to the chat-completion API for a system prompt and a query.\<close>

definition completion_request :: "env \<Rightarrow> string \<Rightarrow> string \<Rightarrow> chat_request" where
  "completion_request env prompt query =
     \<lparr>endpoint = ''https://openrouter.ai/api/v1/chat/completions'',
      model = ''deepseek/deepseek-chat'',
      messages = [(''system'', prompt), (''user'', query)],
      headers = [(''Authorization'', ''Bearer '' @ interpolate (DEEPSEEK_API_KEY env)),
                 (''HTTP-Referer'', or_default (SITE_URL env) ''http://localhost:3000''),
                 (''X-Title'', or_default (APP_NAME env) ''RAG Application''),
                 (''Content-Type'', ''application/json'')]\<rparr>"

text \<open>
  \<open>response.data.choices[0].message.content\<close>. Each property read on
  \<open>undefined\<close> throws the TypeError of Node: on an absent \<open>choices\<close> the read of
  \<open>[0]\<close>, on an empty \<open>choices\<close> the read of \<open>message\<close>, on a first choice without
  \<open>message\<close> the read of \<open>content\<close>.
\<close>

definition first_choice :: "choice list option \<Rightarrow> string prog" where
  "first_choice choices =
     (case choices of
        None \<Rightarrow> throw (Error ''Cannot read properties of undefined (reading '0')'')
      | Some [] \<Rightarrow> throw (Error ''Cannot read properties of undefined (reading 'message')'')
      | Some (No_message # _) \<Rightarrow>
          throw (Error ''Cannot read properties of undefined (reading 'content')'')
      | Some (Message content # _) \<Rightarrow> ret content)"

text \<open>\<open>error.response?.data || error.message\<close>.\<close>

definition details :: "js_error \<Rightarrow> string" where
  "details error = or_default (response_data error) (message error)"

text \<open>
  \<open>src/unnamed/part_000\<close>, \<open>POST /chat\<close>. \<open>query\<close> is \<open>req.body.query\<close>;
  \<open>!query\<close> holds when it is undefined or the empty string. The retriever is built
  with \<open>asRetriever({k: 2})\<close> and invoked at once: one event, with the \<open>k\<close> and the
  query.
\<close>

definition chat :: "env \<Rightarrow> string option \<Rightarrow> http_response prog" where
  "chat env query =
    (case (case query of None \<Rightarrow> None | Some q \<Rightarrow> if q = [] then None else Some q) of
       None \<Rightarrow> ret \<lparr>status = 400, body = Error_body ''Query is required''\<rparr>
     | Some q \<Rightarrow>
        try_catch
         (bnd (call (NewEmbeddings modelName) (newEmbeddings env modelName)) (\<lambda>embeddings.
          bnd (call (FromExistingCollection (qdrant env)) (fromExistingCollection env (qdrant env))) (\<lambda>vectorStore.
          bnd (call (RetrieverInvoke (qdrant env) 2 q) (retriever_invoke env (qdrant env) 2 q)) (\<lambda>docs.
          let request = completion_request env (SYSTEM_PROMPT docs) q in
          bnd (call (AxiosPost request) (axios_post env request)) (\<lambda>choices.
          bnd (first_choice choices) (\<lambda>answer.
          ret \<lparr>status = 200, body = Chat_body answer (map pageContent docs)\<rparr>))))))
         (\<lambda>error.
          bnd (emit (ConsoleError (Error_in_chat (details error)))) (\<lambda>_.
          ret \<lparr>status = 500, body = Error_details_body ''Internal server error'' (details error)\<rparr>)))"

text \<open>
  \<open>src/unnamed/part_001\<close>, \<open>POST /chat\<close>: the API key is logged first, and the
  prompt is the longer one.
\<close>

definition chat_local :: "env \<Rightarrow> string option \<Rightarrow> http_response prog" where
  "chat_local env query =
    bnd (emit (ConsoleLog (Api_key (DEEPSEEK_API_KEY env)))) (\<lambda>_.
    case (case query of None \<Rightarrow> None | Some q \<Rightarrow> if q = [] then None else Some q) of
       None \<Rightarrow> ret \<lparr>status = 400, body = Error_body ''Query is required''\<rparr>
     | Some q \<Rightarrow>
        try_catch
         (bnd (call (NewEmbeddings modelName) (newEmbeddings env modelName)) (\<lambda>embeddings.
          bnd (call (FromExistingCollection (qdrant env)) (fromExistingCollection env (qdrant env))) (\<lambda>vectorStore.
          bnd (call (RetrieverInvoke (qdrant env) 2 q) (retriever_invoke env (qdrant env) 2 q)) (\<lambda>docs.
          let request = completion_request env (SYSTEM_PROMPT_local docs) q in
          bnd (call (AxiosPost request) (axios_post env request)) (\<lambda>choices.
          bnd (first_choice choices) (\<lambda>answer.
          ret \<lparr>status = 200, body = Chat_body answer (map pageContent docs)\<rparr>))))))
         (\<lambda>error.
          bnd (emit (ConsoleError (Error_in_chat (details error)))) (\<lambda>_.
          ret \<lparr>status = 500, body = Error_details_body ''Internal server error'' (details error)\<rparr>)))"

section \<open>Observations on a run\<close>

text \<open>The outcome and the trace of a handler started on the empty trace.\<close>

definition outcome :: "'a prog \<Rightarrow> js_error + 'a" where
  "outcome m = fst (m [])"

definition trace :: "'a prog \<Rightarrow> event list" where
  "trace m = snd (m [])"

text \<open>Calls on the vector index made by a worker.\<close>

fun is_index_call :: "event \<Rightarrow> bool" where
  "is_index_call (FromExistingCollection _) = True"
| "is_index_call (AddDocuments _ _) = True"
| "is_index_call (FromDocuments _ _) = True"
| "is_index_call _ = False"

text \<open>
  The append attempt is \<open>fromExistingCollection\<close> followed by \<open>addDocuments\<close>; it
  fails when either call throws.
\<close>

definition append_failed :: "env \<Rightarrow> document list \<Rightarrow> bool" where
  "append_failed env chunks =
     (case fromExistingCollection env (qdrant env) of
        Inl _ \<Rightarrow> True
      | Inr _ \<Rightarrow> (case addDocuments env (qdrant env) chunks of Inl _ \<Rightarrow> True | Inr _ \<Rightarrow> False))"

text \<open>
  The upsert as the specification words it: the append to the existing collection is
  attempted first, and the collection is created from the chunks exactly when the append
  attempt failed. \<open>addDocuments\<close> is reached only on a collection that was found.
\<close>

definition append_then_create :: "env \<Rightarrow> document list \<Rightarrow> event list" where
  "append_then_create env chunks =
     FromExistingCollection (qdrant env)
     # (case fromExistingCollection env (qdrant env) of
          Inl _ \<Rightarrow> []
        | Inr _ \<Rightarrow> [AddDocuments (qdrant env) chunks])
     @ (if append_failed env chunks then [FromDocuments chunks (qdrant env)] else [])"

text \<open>File removals.\<close>

fun is_unlink :: "event \<Rightarrow> bool" where
  "is_unlink (UnlinkSync _) = True"
| "is_unlink _ = False"

text \<open>
  Everything a request or a job can do outside the process except writing a log line.
\<close>

fun is_log :: "event \<Rightarrow> bool" where
  "is_log (ConsoleLog _) = True"
| "is_log (ConsoleError _) = True"
| "is_log _ = False"

definition effects :: "event list \<Rightarrow> event list" where
  "effects tr = filter (\<lambda>ev. \<not> is_log ev) tr"

text \<open>Requests to the chat-completion API.\<close>

fun is_model_call :: "event \<Rightarrow> bool" where
  "is_model_call (AxiosPost _) = True"
| "is_model_call _ = False"

text \<open>A block that adds no event of a given kind to the trace, however it ends.\<close>

definition silent_on :: "(event \<Rightarrow> bool) \<Rightarrow> 'a prog \<Rightarrow> bool" where
  "silent_on P m = (\<forall>tr. filter P (snd (m tr)) = filter P tr)"

section \<open>Sample inputs\<close>

definition page1 :: document where
  "page1 = \<lparr>pageContent = ''Gift ideas for spring.'', metadata = ''page 1''\<rparr>"

definition page2 :: document where
  "page2 = \<lparr>pageContent = ''Wrap with care.'', metadata = ''page 2''\<rparr>"

definition job_cloud :: job_data where
  "job_cloud = \<lparr>filename = ''gifts.pdf'',
                 url = Some ''https://res.cloudinary.com/demo/raw/upload/pdfs/gifts.pdf'',
                 destination = None, path = None\<rparr>"

definition job_disk :: job_data where
  "job_disk = \<lparr>filename = ''gifts.pdf'', url = None,
                destination = Some ''uploads/'', path = Some ''uploads/gifts.pdf-17-42''\<rparr>"

definition job_no_url :: job_data where
  "job_no_url = \<lparr>filename = ''gifts.pdf'', url = None, destination = None, path = None\<rparr>"

definition question :: string where
  "question = ''What should I give in spring?''"

definition upstream_401 :: js_error where
  "upstream_401 = \<lparr>message = ''Request failed with status code 401'',
                    response_data = Some ''No auth credentials found''\<rparr>"

text \<open>An environment in which every call succeeds and the collection exists.\<close>

definition env_ok :: env where
  "env_ok = \<lparr>QDRANT_URL = None, QDRANT_API_KEY = None, DEEPSEEK_API_KEY = Some ''sk-test'',
             SITE_URL = None, APP_NAME = None,
             path_basename = (\<lambda>u. ''gifts.pdf''),
             path_join = (\<lambda>a b. a @ ''/'' @ b),
             axios_get = (\<lambda>u. Inr ''%PDF-1.4''),
             writeFileSync = (\<lambda>p d. Inr ()),
             pdf_load = (\<lambda>p. Inr [page1, page2]),
             splitDocuments = (\<lambda>size overlap docs. Inr docs),
             newEmbeddings = (\<lambda>m. Inr ()),
             fromExistingCollection = (\<lambda>a. Inr ()),
             addDocuments = (\<lambda>a docs. Inr ()),
             fromDocuments = (\<lambda>docs a. Inr ()),
             unlinkSync = (\<lambda>p. Inr ()),
             cloudinary_upload = (\<lambda>p. Inr ''https://res.cloudinary.com/demo/raw/upload/pdfs/gifts.pdf''),
             queue_add = (\<lambda>n d. Inr ()),
             retriever_invoke = (\<lambda>a k q. Inr (take k [page1, page2])),
             axios_post = (\<lambda>r. Inr (Some [Message ''Tulips.'']))\<rparr>"

text \<open>The collection is missing: connecting to it throws, creating it works.\<close>

definition env_no_collection :: env where
  "env_no_collection = env_ok\<lparr>fromExistingCollection := (\<lambda>a. Inl (Error ''Not found''))\<rparr>"

text \<open>The vector store cannot be reached: connecting throws, and so does creating.\<close>

definition env_qdrant_down :: env where
  "env_qdrant_down =
     env_ok\<lparr>fromExistingCollection := (\<lambda>a. Inl (Error ''fetch failed'')),
            fromDocuments := (\<lambda>docs a. Inl (Error ''fetch failed''))\<rparr>"

text \<open>The PDF has no extractable page.\<close>

definition env_empty_pdf :: env where
  "env_empty_pdf = env_ok\<lparr>pdf_load := (\<lambda>p. Inr [])\<rparr>"

text \<open>The PDF loader throws.\<close>

definition env_bad_pdf :: env where
  "env_bad_pdf = env_ok\<lparr>pdf_load := (\<lambda>p. Inl (Error ''Invalid PDF structure''))\<rparr>"

text \<open>The retriever finds a single document.\<close>

definition env_one_chunk :: env where
  "env_one_chunk = env_ok\<lparr>retriever_invoke := (\<lambda>a k q. Inr [page1])\<rparr>"

text \<open>The chat-completion API answers 401 with a payload.\<close>

definition env_401 :: env where
  "env_401 = env_ok\<lparr>axios_post := (\<lambda>r. Inl upstream_401)\<rparr>"

section \<open>Running a block\<close>

text \<open>
  The combinators applied to a trace. Stated on applications, they unfold a handler
  statement by statement, in program order, and leave the continuations alone.
\<close>

lemma bnd_apply:
  "bnd m k tr = (case m tr of (Inl e, tr') \<Rightarrow> (Inl e, tr') | (Inr v, tr') \<Rightarrow> k v tr')"
  by (simp add: bnd_def)

lemma try_catch_apply:
  "try_catch m h tr = (case m tr of (Inl e, tr') \<Rightarrow> h e tr' | (Inr v, tr') \<Rightarrow> (Inr v, tr'))"
  by (simp add: try_catch_def)

lemma emit_apply: "emit ev tr = (Inr (), tr @ [ev])"
  by (simp add: emit_def)

lemma call_apply: "call ev r tr = (r, tr @ [ev])"
  by (simp add: call_def)

lemma ret_apply: "ret v tr = (Inr v, tr)"
  by (simp add: ret_def)

lemma throw_apply: "throw e tr = (Inl e, tr)"
  by (simp add: throw_def)

lemmas run = bnd_apply try_catch_apply emit_apply call_apply ret_apply throw_apply
  outcome_def trace_def Let_def

lemmas worker_defs = worker_download_def worker_download_try_def
  worker_local_def worker_local_try_def
  worker_local_ioredis_def worker_local_ioredis_try_def

lemmas sample_defs = env_ok_def env_no_collection_def env_empty_pdf_def env_bad_pdf_def
  env_401_def env_qdrant_down_def job_cloud_def job_disk_def job_no_url_def question_def
  upstream_401_def

text \<open>A \<open>catch\<close> that only writes a log line turns every outcome into a normal return.\<close>

lemma catch_and_log_returns: "fst (try_catch m (\<lambda>e. emit (f e)) tr) = Inr ()"
  by (cases "m tr") (auto simp: try_catch_def emit_def split: sum.splits)

section \<open>The worker: guards and failures\<close>

text \<open>
  \<^bold>\<open>C10.\<close> A job of the remote-download worker whose data has no \<open>url\<close> field: the
  worker throws "No file URL provided in job data" and catches it at the top level. The
  whole run is the line that announces the job and the line that logs the error; there is
  no download, no file write and no call on the index, and the processor returns.
\<close>

theorem missing_url_abandons_job:
  assumes "url job = None"
  shows "outcome (worker_download env job) = Inr () \<and>
         trace (worker_download env job) =
           [ConsoleLog (Processing_job job),
            ConsoleError (Error_processing_PDF (Error ''No file URL provided in job data''))]"
  using assms by (simp add: worker_download_def worker_download_try_def run)

theorem missing_url_abandons_job_sample:
  "outcome (worker_download env_ok job_no_url) = Inr () \<and>
   trace (worker_download env_ok job_no_url) =
     [ConsoleLog (Processing_job job_no_url),
      ConsoleError (Error_processing_PDF (Error ''No file URL provided in job data''))]"
proof -
  have "url job_no_url = None"
    by (simp add: job_no_url_def)
  then show ?thesis
    by (rule missing_url_abandons_job)
qed

text \<open>
  \<^bold>\<open>C3.\<close> When the PDF loader returns no segment, the worker writes the line "No text
  extracted from PDF" and returns: the run has no split, no embedding model, no call on
  the index. The processor returns normally, so the queue sees a completed job and does
  not run it again. In the remote-download variant the download and the temporary file
  precede the loader.
\<close>

theorem empty_extraction_aborts:
  "(pdf_load env (path job) = Inr [] \<longrightarrow>
      outcome (worker_local env job) = Inr () \<and>
      trace (worker_local env job) =
        [ConsoleLog (Processing_job job), PdfLoad (path job),
         ConsoleLog (Loaded_docs 0), ConsoleError No_text_extracted] \<and>
      outcome (worker_local_ioredis env job) = Inr () \<and>
      trace (worker_local_ioredis env job) =
        [ConsoleLog (Processing_job job), PdfLoad (path job),
         ConsoleLog (Loaded_docs 0), ConsoleError No_text_extracted]) \<and>
   (url job = Some u \<and> u \<noteq> [] \<and> axios_get env u = Inr bytes \<and>
    writeFileSync env (tempFilePath env u) bytes = Inr () \<and>
    pdf_load env (Some (tempFilePath env u)) = Inr [] \<longrightarrow>
      outcome (worker_download env job) = Inr () \<and>
      trace (worker_download env job) =
        [ConsoleLog (Processing_job job), AxiosGet u,
         WriteFileSync (tempFilePath env u) bytes,
         ConsoleLog (PDF_downloaded (tempFilePath env u)),
         PdfLoad (Some (tempFilePath env u)),
         ConsoleLog (Loaded_docs 0), ConsoleError No_text_extracted])"
proof (intro conjI impI)
  assume "pdf_load env (path job) = Inr []"
  then show "outcome (worker_local env job) = Inr ()"
    and "outcome (worker_local_ioredis env job) = Inr ()"
    and "trace (worker_local env job) =
        [ConsoleLog (Processing_job job), PdfLoad (path job),
         ConsoleLog (Loaded_docs 0), ConsoleError No_text_extracted]"
    and "trace (worker_local_ioredis env job) =
        [ConsoleLog (Processing_job job), PdfLoad (path job),
         ConsoleLog (Loaded_docs 0), ConsoleError No_text_extracted]"
    by (simp_all add: worker_defs run)
next
  assume "url job = Some u \<and> u \<noteq> [] \<and> axios_get env u = Inr bytes \<and>
    writeFileSync env (tempFilePath env u) bytes = Inr () \<and>
    pdf_load env (Some (tempFilePath env u)) = Inr []"
  then show "outcome (worker_download env job) = Inr ()"
    and "trace (worker_download env job) =
        [ConsoleLog (Processing_job job), AxiosGet u,
         WriteFileSync (tempFilePath env u) bytes,
         ConsoleLog (PDF_downloaded (tempFilePath env u)),
         PdfLoad (Some (tempFilePath env u)),
         ConsoleLog (Loaded_docs 0), ConsoleError No_text_extracted]"
    by (simp_all add: worker_defs run)
qed

theorem empty_extraction_aborts_sample:
  "trace (worker_local env_empty_pdf job_disk) =
     [ConsoleLog (Processing_job job_disk), PdfLoad (Some ''uploads/gifts.pdf-17-42''),
      ConsoleLog (Loaded_docs 0), ConsoleError No_text_extracted] \<and>
   outcome (worker_local_ioredis env_empty_pdf job_disk) = Inr () \<and>
   outcome (worker_download env_empty_pdf job_cloud) = Inr () \<and>
   trace (worker_download env_empty_pdf job_cloud) =
     [ConsoleLog (Processing_job job_cloud),
      AxiosGet ''https://res.cloudinary.com/demo/raw/upload/pdfs/gifts.pdf'',
      WriteFileSync ''/tmp/gifts.pdf'' ''%PDF-1.4'',
      ConsoleLog (PDF_downloaded ''/tmp/gifts.pdf''),
      PdfLoad (Some ''/tmp/gifts.pdf''),
      ConsoleLog (Loaded_docs 0), ConsoleError No_text_extracted]"
proof -
  let ?u = "''https://res.cloudinary.com/demo/raw/upload/pdfs/gifts.pdf''"
  have tmp: "tempFilePath env_empty_pdf ?u = ''/tmp/gifts.pdf''"
    by (simp add: tempFilePath_def sample_defs)
  have disk: "pdf_load env_empty_pdf (path job_disk) = Inr []"
    by (simp add: sample_defs)
  have cloud: "url job_cloud = Some ?u \<and> ?u \<noteq> [] \<and>
      axios_get env_empty_pdf ?u = Inr ''%PDF-1.4'' \<and>
      writeFileSync env_empty_pdf (tempFilePath env_empty_pdf ?u) ''%PDF-1.4'' = Inr () \<and>
      pdf_load env_empty_pdf (Some (tempFilePath env_empty_pdf ?u)) = Inr []"
    by (simp add: sample_defs)
  have p: "path job_disk = Some ''uploads/gifts.pdf-17-42''"
    by (simp add: job_disk_def)
  from empty_extraction_aborts [of env_empty_pdf job_disk ?u "''%PDF-1.4''"] disk
  have a: "trace (worker_local env_empty_pdf job_disk) =
        [ConsoleLog (Processing_job job_disk), PdfLoad (path job_disk),
         ConsoleLog (Loaded_docs 0), ConsoleError No_text_extracted]"
    and b: "outcome (worker_local_ioredis env_empty_pdf job_disk) = Inr ()"
    by blast+
  from empty_extraction_aborts [of env_empty_pdf job_cloud ?u "''%PDF-1.4''"] cloud
  have c: "outcome (worker_download env_empty_pdf job_cloud) = Inr () \<and>
      trace (worker_download env_empty_pdf job_cloud) =
        [ConsoleLog (Processing_job job_cloud), AxiosGet ?u,
         WriteFileSync (tempFilePath env_empty_pdf ?u) ''%PDF-1.4'',
         ConsoleLog (PDF_downloaded (tempFilePath env_empty_pdf ?u)),
         PdfLoad (Some (tempFilePath env_empty_pdf ?u)),
         ConsoleLog (Loaded_docs 0), ConsoleError No_text_extracted]"
    by blast
  from a b c show ?thesis
    by (simp add: tmp p)
qed

section \<open>The HTTP service: guards\<close>

text \<open>
  \<^bold>\<open>C7.\<close> A \<open>/chat\<close> request whose query is absent or the empty string is answered
  with status 400 and "Query is required". Nothing has been called by then: no embedding
  model, no vector store, no chat-completion request. The direct-upload server has
  written one log line (the API key) before the guard.
\<close>

theorem chat_rejects_missing_query:
  "outcome (chat env None) = Inr \<lparr>status = 400, body = Error_body ''Query is required''\<rparr> \<and>
   trace (chat env None) = [] \<and>
   outcome (chat env (Some [])) = Inr \<lparr>status = 400, body = Error_body ''Query is required''\<rparr> \<and>
   trace (chat env (Some [])) = [] \<and>
   outcome (chat_local env None) = Inr \<lparr>status = 400, body = Error_body ''Query is required''\<rparr> \<and>
   trace (chat_local env None) = [ConsoleLog (Api_key (DEEPSEEK_API_KEY env))] \<and>
   outcome (chat_local env (Some [])) = Inr \<lparr>status = 400, body = Error_body ''Query is required''\<rparr> \<and>
   trace (chat_local env (Some [])) = [ConsoleLog (Api_key (DEEPSEEK_API_KEY env))]"
  by (simp add: chat_def chat_local_def run)

text \<open>
  \<^bold>\<open>C8.\<close> An \<open>/upload/pdf\<close> request without a file is answered with status 400 and
  "No file uploaded" before anything is called: the queue is not touched and, on the
  cloud-storage server, nothing is uploaded.
\<close>

theorem upload_rejects_missing_file:
  "outcome (upload_pdf env None) = Inr \<lparr>status = 400, body = Error_body ''No file uploaded''\<rparr> \<and>
   trace (upload_pdf env None) = [] \<and>
   outcome (upload_pdf_local env None) = Inr \<lparr>status = 400, body = Error_body ''No file uploaded''\<rparr> \<and>
   trace (upload_pdf_local env None) = []"
  by (simp add: upload_pdf_def upload_pdf_local_def run)

section \<open>The worker: splitting\<close>

text \<open>
  The splitter is LangChain's; the worker fixes its parameters and calls it once, on all
  the loaded segments in the order the loader gave them, and indexes what it returns.
\<close>

lemma worker_local_split_call:
  assumes "pdf_load env (path job) = Inr docs" and "docs \<noteq> []"
  shows "SplitDocuments 1000 200 docs \<in> set (trace (worker_local env job))"
proof (cases "splitDocuments env 1000 200 docs")
  case (Inl e)
  with assms show ?thesis by (simp add: worker_defs run)
next
  case (Inr chunks)
  with assms show ?thesis
    by (cases "newEmbeddings env modelName";
        cases "fromExistingCollection env (qdrant env)";
        cases "addDocuments env (qdrant env) chunks";
        cases "fromDocuments env chunks (qdrant env)")
       (simp_all add: worker_defs run)
qed

lemma worker_download_split_call:
  assumes "url job = Some u" and "u \<noteq> []" and "axios_get env u = Inr bytes"
    and "writeFileSync env (tempFilePath env u) bytes = Inr ()"
    and "pdf_load env (Some (tempFilePath env u)) = Inr docs" and "docs \<noteq> []"
  shows "SplitDocuments 1000 200 docs \<in> set (trace (worker_download env job))"
proof (cases "splitDocuments env 1000 200 docs")
  case (Inl e)
  with assms show ?thesis by (simp add: worker_defs run)
next
  case (Inr chunks)
  with assms show ?thesis
    by (cases "newEmbeddings env modelName";
        cases "fromExistingCollection env (qdrant env)";
        cases "addDocuments env (qdrant env) chunks";
        cases "fromDocuments env chunks (qdrant env)";
        cases "unlinkSync env (tempFilePath env u)")
       (simp_all add: worker_defs run)
qed

section \<open>The worker: upsert\<close>

lemma worker_local_index_calls:
  assumes "pdf_load env (path job) = Inr docs" and "docs \<noteq> []"
    and "splitDocuments env 1000 200 docs = Inr chunks"
    and "newEmbeddings env modelName = Inr ()"
  shows "filter is_index_call (trace (worker_local env job)) = append_then_create env chunks"
  using assms
  by (cases "fromExistingCollection env (qdrant env)";
      cases "addDocuments env (qdrant env) chunks";
      cases "fromDocuments env chunks (qdrant env)")
     (simp_all add: worker_defs run append_then_create_def append_failed_def)

lemma worker_local_ioredis_index_calls:
  assumes "pdf_load env (path job) = Inr docs" and "docs \<noteq> []"
    and "splitDocuments env 1000 200 docs = Inr chunks"
    and "newEmbeddings env modelName = Inr ()"
  shows "filter is_index_call (trace (worker_local_ioredis env job)) = append_then_create env chunks"
  using assms
  by (cases "fromExistingCollection env (qdrant env)";
      cases "addDocuments env (qdrant env) chunks";
      cases "fromDocuments env chunks (qdrant env)")
     (simp_all add: worker_defs run append_then_create_def append_failed_def)

lemma worker_download_index_calls:
  assumes "url job = Some u" and "u \<noteq> []" and "axios_get env u = Inr bytes"
    and "writeFileSync env (tempFilePath env u) bytes = Inr ()"
    and "pdf_load env (Some (tempFilePath env u)) = Inr docs" and "docs \<noteq> []"
    and "splitDocuments env 1000 200 docs = Inr chunks"
    and "newEmbeddings env modelName = Inr ()"
  shows "filter is_index_call (trace (worker_download env job)) = append_then_create env chunks"
  using assms
  by (cases "fromExistingCollection env (qdrant env)";
      cases "addDocuments env (qdrant env) chunks";
      cases "fromDocuments env chunks (qdrant env)";
      cases "unlinkSync env (tempFilePath env u)")
     (simp_all add: worker_defs run append_then_create_def append_failed_def)

lemma create_iff_append_failed:
  "(FromDocuments chunks (qdrant env) \<in> set (append_then_create env chunks))
     = append_failed env chunks"
  by (simp add: append_then_create_def split: sum.splits)

text \<open>
  \<^bold>\<open>C1.\<close> Once the chunks of a job are ready (the PDF is loaded with at least one
  segment, the split and the embedding model are there), the first call a worker makes on
  the vector index is \<open>fromExistingCollection\<close> on the collection \<open>pdf-docs\<close>, followed
  by \<open>addDocuments\<close> when the collection was found. \<open>fromDocuments\<close>, which creates the
  collection from the same chunks, is called if and only if that append attempt threw.
  No other call on the index is made, so nothing checks for the collection beforehand.
\<close>

theorem upsert_appends_before_creating:
  "(pdf_load env (path job) = Inr docs \<and> docs \<noteq> [] \<and>
    splitDocuments env 1000 200 docs = Inr chunks \<and>
    newEmbeddings env modelName = Inr () \<longrightarrow>
      filter is_index_call (trace (worker_local env job)) = append_then_create env chunks \<and>
      filter is_index_call (trace (worker_local_ioredis env job)) = append_then_create env chunks) \<and>
   (url job = Some u \<and> u \<noteq> [] \<and> axios_get env u = Inr bytes \<and>
    writeFileSync env (tempFilePath env u) bytes = Inr () \<and>
    pdf_load env (Some (tempFilePath env u)) = Inr docs \<and> docs \<noteq> [] \<and>
    splitDocuments env 1000 200 docs = Inr chunks \<and>
    newEmbeddings env modelName = Inr () \<longrightarrow>
      filter is_index_call (trace (worker_download env job)) = append_then_create env chunks) \<and>
   hd (append_then_create env chunks) = FromExistingCollection (qdrant env) \<and>
   (FromDocuments chunks (qdrant env) \<in> set (append_then_create env chunks))
     = append_failed env chunks \<and>
   collectionName (qdrant env) = ''pdf-docs''"
proof (intro conjI impI)
  assume "pdf_load env (path job) = Inr docs \<and> docs \<noteq> [] \<and>
    splitDocuments env 1000 200 docs = Inr chunks \<and> newEmbeddings env modelName = Inr ()"
  then show "filter is_index_call (trace (worker_local env job)) = append_then_create env chunks"
    and "filter is_index_call (trace (worker_local_ioredis env job)) = append_then_create env chunks"
    by (simp_all add: worker_local_index_calls worker_local_ioredis_index_calls)
next
  assume "url job = Some u \<and> u \<noteq> [] \<and> axios_get env u = Inr bytes \<and>
    writeFileSync env (tempFilePath env u) bytes = Inr () \<and>
    pdf_load env (Some (tempFilePath env u)) = Inr docs \<and> docs \<noteq> [] \<and>
    splitDocuments env 1000 200 docs = Inr chunks \<and> newEmbeddings env modelName = Inr ()"
  then show "filter is_index_call (trace (worker_download env job)) = append_then_create env chunks"
    by (simp add: worker_download_index_calls)
next
  show "hd (append_then_create env chunks) = FromExistingCollection (qdrant env)"
    by (simp add: append_then_create_def)
  show "(FromDocuments chunks (qdrant env) \<in> set (append_then_create env chunks))
     = append_failed env chunks"
    by (rule create_iff_append_failed)
  show "collectionName (qdrant env) = ''pdf-docs''"
    by (simp add: qdrant_def)
qed

theorem upsert_appends_before_creating_sample:
  "filter is_index_call (trace (worker_local env_no_collection job_disk)) =
     [FromExistingCollection (qdrant env_no_collection),
      FromDocuments [page1, page2] (qdrant env_no_collection)] \<and>
   filter is_index_call (trace (worker_download env_ok job_cloud)) =
     [FromExistingCollection (qdrant env_ok), AddDocuments (qdrant env_ok) [page1, page2]]"
proof -
  let ?u = "''https://res.cloudinary.com/demo/raw/upload/pdfs/gifts.pdf''"
  have disk: "pdf_load env_no_collection (path job_disk) = Inr [page1, page2] \<and>
      [page1, page2] \<noteq> [] \<and>
      splitDocuments env_no_collection 1000 200 [page1, page2] = Inr [page1, page2] \<and>
      newEmbeddings env_no_collection modelName = Inr ()"
    by (simp add: sample_defs)
  have cloud: "url job_cloud = Some ?u \<and> ?u \<noteq> [] \<and> axios_get env_ok ?u = Inr ''%PDF-1.4'' \<and>
      writeFileSync env_ok (tempFilePath env_ok ?u) ''%PDF-1.4'' = Inr () \<and>
      pdf_load env_ok (Some (tempFilePath env_ok ?u)) = Inr [page1, page2] \<and>
      [page1, page2] \<noteq> [] \<and>
      splitDocuments env_ok 1000 200 [page1, page2] = Inr [page1, page2] \<and>
      newEmbeddings env_ok modelName = Inr ()"
    by (simp add: sample_defs)
  have created: "append_then_create env_no_collection [page1, page2] =
      [FromExistingCollection (qdrant env_no_collection),
       FromDocuments [page1, page2] (qdrant env_no_collection)]"
    by (simp add: append_then_create_def append_failed_def sample_defs)
  have appended: "append_then_create env_ok [page1, page2] =
      [FromExistingCollection (qdrant env_ok), AddDocuments (qdrant env_ok) [page1, page2]]"
    by (simp add: append_then_create_def append_failed_def sample_defs)
  from upsert_appends_before_creating
         [of env_no_collection job_disk "[page1, page2]" "[page1, page2]"] disk
  have a: "filter is_index_call (trace (worker_local env_no_collection job_disk)) =
      append_then_create env_no_collection [page1, page2]"
    by blast
  from upsert_appends_before_creating
         [of env_ok job_cloud "[page1, page2]" "[page1, page2]" ?u "''%PDF-1.4''"] cloud
  have b: "filter is_index_call (trace (worker_download env_ok job_cloud)) =
      append_then_create env_ok [page1, page2]"
    by blast
  from a b show ?thesis
    by (simp only: created appended)
qed

section \<open>The worker: failures\<close>

text \<open>
  \<^bold>\<open>C4, as the code has it.\<close> The processor returns normally for every job, so the
  queue is handed a completed job and never a failed one. An exception thrown outside the
  append attempt (by the url guard, the download, the file write, the PDF loader, the splitter, the
  embedding model, the create that follows a failed append, or the removal of the
  temporary file) is caught by the top-level \<open>catch\<close>, which writes "Error processing
  PDF" with the error: the run is the events made up to the call that threw, then that
  line, and nothing after it. An exception thrown by the append attempt
  (\<open>fromExistingCollection\<close> or \<open>addDocuments\<close>) does not get there: the inner
  \<open>catch\<close> takes it, writes "Collection not found, creating new..." and no error line,
  and the job goes on with the create. \<open>w\<close> is either direct-upload worker,
  \<open>connecting\<close> the line that only the one of \<open>part_002\<close> writes before it connects.
\<close>

theorem exceptions_outside_the_append_are_logged:
  assumes "(w, connecting) = (worker_local, []) \<or>
           (w, connecting) =
             (worker_local_ioredis, [ConsoleLog (Connecting_to_Qdrant (QDRANT_URL env))])"
  shows
   "outcome (w env job) = Inr () \<and>
    outcome (worker_download env job) = Inr () \<and>
    (pdf_load env (path job) = Inl e \<longrightarrow>
       trace (w env job) =
         [ConsoleLog (Processing_job job), PdfLoad (path job),
          ConsoleError (Error_processing_PDF e)]) \<and>
    (pdf_load env (path job) = Inr docs \<and> docs \<noteq> [] \<longrightarrow>
       (splitDocuments env 1000 200 docs = Inl e \<longrightarrow>
          trace (w env job) =
            [ConsoleLog (Processing_job job), PdfLoad (path job),
             ConsoleLog (Loaded_docs (length docs)), SplitDocuments 1000 200 docs,
             ConsoleError (Error_processing_PDF e)]) \<and>
       (splitDocuments env 1000 200 docs = Inr chunks \<longrightarrow>
          (newEmbeddings env modelName = Inl e \<longrightarrow>
             trace (w env job) =
               [ConsoleLog (Processing_job job), PdfLoad (path job),
                ConsoleLog (Loaded_docs (length docs)), SplitDocuments 1000 200 docs,
                ConsoleLog (Split_into_chunks (length chunks)), NewEmbeddings modelName,
                ConsoleError (Error_processing_PDF e)]) \<and>
          (newEmbeddings env modelName = Inr () \<and> append_failed env chunks \<longrightarrow>
             (fromDocuments env chunks (qdrant env) = Inl e \<longrightarrow>
                trace (w env job) =
                  [ConsoleLog (Processing_job job), PdfLoad (path job),
                   ConsoleLog (Loaded_docs (length docs)), SplitDocuments 1000 200 docs,
                   ConsoleLog (Split_into_chunks (length chunks)), NewEmbeddings modelName]
                  @ connecting
                  @ FromExistingCollection (qdrant env)
                  # (if isl (fromExistingCollection env (qdrant env)) then []
                     else [AddDocuments (qdrant env) chunks])
                  @ [ConsoleLog Collection_not_found, FromDocuments chunks (qdrant env),
                     ConsoleError (Error_processing_PDF e)]) \<and>
             (fromDocuments env chunks (qdrant env) = Inr () \<longrightarrow>
                trace (w env job) =
                  [ConsoleLog (Processing_job job), PdfLoad (path job),
                   ConsoleLog (Loaded_docs (length docs)), SplitDocuments 1000 200 docs,
                   ConsoleLog (Split_into_chunks (length chunks)), NewEmbeddings modelName]
                  @ connecting
                  @ FromExistingCollection (qdrant env)
                  # (if isl (fromExistingCollection env (qdrant env)) then []
                     else [AddDocuments (qdrant env) chunks])
                  @ [ConsoleLog Collection_not_found, FromDocuments chunks (qdrant env),
                     ConsoleLog (Created_collection (length chunks))])))) \<and>
    (url job = None \<or> url job = Some [] \<longrightarrow>
       trace (worker_download env job) =
         [ConsoleLog (Processing_job job),
          ConsoleError (Error_processing_PDF (Error ''No file URL provided in job data''))]) \<and>
    (url job = Some u \<and> u \<noteq> [] \<longrightarrow>
       (axios_get env u = Inl e \<longrightarrow>
          trace (worker_download env job) =
            [ConsoleLog (Processing_job job), AxiosGet u,
             ConsoleError (Error_processing_PDF e)]) \<and>
       (axios_get env u = Inr bytes \<longrightarrow>
          (writeFileSync env (tempFilePath env u) bytes = Inl e \<longrightarrow>
             trace (worker_download env job) =
               [ConsoleLog (Processing_job job), AxiosGet u,
                WriteFileSync (tempFilePath env u) bytes,
                ConsoleError (Error_processing_PDF e)]) \<and>
          (writeFileSync env (tempFilePath env u) bytes = Inr () \<longrightarrow>
             (pdf_load env (Some (tempFilePath env u)) = Inl e \<longrightarrow>
                trace (worker_download env job) =
                  [ConsoleLog (Processing_job job), AxiosGet u,
                   WriteFileSync (tempFilePath env u) bytes,
                   ConsoleLog (PDF_downloaded (tempFilePath env u)),
                   PdfLoad (Some (tempFilePath env u)),
                   ConsoleError (Error_processing_PDF e)]) \<and>
             (pdf_load env (Some (tempFilePath env u)) = Inr docs \<and> docs \<noteq> [] \<longrightarrow>
                (splitDocuments env 1000 200 docs = Inl e \<longrightarrow>
                   trace (worker_download env job) =
                     [ConsoleLog (Processing_job job), AxiosGet u,
                      WriteFileSync (tempFilePath env u) bytes,
                      ConsoleLog (PDF_downloaded (tempFilePath env u)),
                      PdfLoad (Some (tempFilePath env u)),
                      ConsoleLog (Loaded_docs (length docs)), SplitDocuments 1000 200 docs,
                      ConsoleError (Error_processing_PDF e)]) \<and>
                (splitDocuments env 1000 200 docs = Inr chunks \<longrightarrow>
                   (newEmbeddings env modelName = Inl e \<longrightarrow>
                      trace (worker_download env job) =
                        [ConsoleLog (Processing_job job), AxiosGet u,
                         WriteFileSync (tempFilePath env u) bytes,
                         ConsoleLog (PDF_downloaded (tempFilePath env u)),
                         PdfLoad (Some (tempFilePath env u)),
                         ConsoleLog (Loaded_docs (length docs)), SplitDocuments 1000 200 docs,
                         ConsoleLog (Split_into_chunks (length chunks)),
                         NewEmbeddings modelName,
                         ConsoleError (Error_processing_PDF e)]) \<and>
                   (newEmbeddings env modelName = Inr () \<longrightarrow>
                      (append_failed env chunks \<and>
                       fromDocuments env chunks (qdrant env) = Inl e \<longrightarrow>
                         trace (worker_download env job) =
                           [ConsoleLog (Processing_job job), AxiosGet u,
                            WriteFileSync (tempFilePath env u) bytes,
                            ConsoleLog (PDF_downloaded (tempFilePath env u)),
                            PdfLoad (Some (tempFilePath env u)),
                            ConsoleLog (Loaded_docs (length docs)),
                            SplitDocuments 1000 200 docs,
                            ConsoleLog (Split_into_chunks (length chunks)),
                            NewEmbeddings modelName,
                            ConsoleLog (Connecting_to_Qdrant (QDRANT_URL env)),
                            FromExistingCollection (qdrant env)]
                           @ (if isl (fromExistingCollection env (qdrant env)) then []
                              else [AddDocuments (qdrant env) chunks])
                           @ [ConsoleLog Collection_not_found,
                              FromDocuments chunks (qdrant env),
                              ConsoleError (Error_processing_PDF e)]) \<and>
                      (append_failed env chunks \<and>
                       fromDocuments env chunks (qdrant env) = Inr () \<and>
                       unlinkSync env (tempFilePath env u) = Inr () \<longrightarrow>
                         trace (worker_download env job) =
                           [ConsoleLog (Processing_job job), AxiosGet u,
                            WriteFileSync (tempFilePath env u) bytes,
                            ConsoleLog (PDF_downloaded (tempFilePath env u)),
                            PdfLoad (Some (tempFilePath env u)),
                            ConsoleLog (Loaded_docs (length docs)),
                            SplitDocuments 1000 200 docs,
                            ConsoleLog (Split_into_chunks (length chunks)),
                            NewEmbeddings modelName,
                            ConsoleLog (Connecting_to_Qdrant (QDRANT_URL env)),
                            FromExistingCollection (qdrant env)]
                           @ (if isl (fromExistingCollection env (qdrant env)) then []
                              else [AddDocuments (qdrant env) chunks])
                           @ [ConsoleLog Collection_not_found,
                              FromDocuments chunks (qdrant env),
                              ConsoleLog (Created_collection (length chunks)),
                              UnlinkSync (tempFilePath env u),
                              ConsoleLog Temp_file_deleted]) \<and>
                      (append_failed env chunks \<and>
                       fromDocuments env chunks (qdrant env) = Inr () \<and>
                       unlinkSync env (tempFilePath env u) = Inl e \<longrightarrow>
                         trace (worker_download env job) =
                           [ConsoleLog (Processing_job job), AxiosGet u,
                            WriteFileSync (tempFilePath env u) bytes,
                            ConsoleLog (PDF_downloaded (tempFilePath env u)),
                            PdfLoad (Some (tempFilePath env u)),
                            ConsoleLog (Loaded_docs (length docs)),
                            SplitDocuments 1000 200 docs,
                            ConsoleLog (Split_into_chunks (length chunks)),
                            NewEmbeddings modelName,
                            ConsoleLog (Connecting_to_Qdrant (QDRANT_URL env)),
                            FromExistingCollection (qdrant env)]
                           @ (if isl (fromExistingCollection env (qdrant env)) then []
                              else [AddDocuments (qdrant env) chunks])
                           @ [ConsoleLog Collection_not_found,
                              FromDocuments chunks (qdrant env),
                              ConsoleLog (Created_collection (length chunks)),
                              UnlinkSync (tempFilePath env u),
                              ConsoleError (Error_processing_PDF e)]) \<and>
                      (fromExistingCollection env (qdrant env) = Inr () \<and>
                       addDocuments env (qdrant env) chunks = Inr () \<and>
                       unlinkSync env (tempFilePath env u) = Inl e \<longrightarrow>
                         trace (worker_download env job) =
                           [ConsoleLog (Processing_job job), AxiosGet u,
                            WriteFileSync (tempFilePath env u) bytes,
                            ConsoleLog (PDF_downloaded (tempFilePath env u)),
                            PdfLoad (Some (tempFilePath env u)),
                            ConsoleLog (Loaded_docs (length docs)),
                            SplitDocuments 1000 200 docs,
                            ConsoleLog (Split_into_chunks (length chunks)),
                            NewEmbeddings modelName,
                            ConsoleLog (Connecting_to_Qdrant (QDRANT_URL env)),
                            FromExistingCollection (qdrant env),
                            AddDocuments (qdrant env) chunks,
                            ConsoleLog (Added_chunks (length chunks)),
                            UnlinkSync (tempFilePath env u),
                            ConsoleError (Error_processing_PDF e)])))))))"
  using assms
proof (elim disjE)
  assume "(w, connecting) = (worker_local, [])"
  then have w: "w = worker_local" "connecting = []"
    by simp_all
  show ?thesis
    unfolding w
    apply (rule conjI)
     apply (simp add: worker_local_def outcome_def bnd_apply emit_apply catch_and_log_returns)
    apply (rule conjI)
     apply (simp add: worker_download_def outcome_def bnd_apply emit_apply catch_and_log_returns)
    apply (cases "fromExistingCollection env (qdrant env)";
           cases "addDocuments env (qdrant env) chunks")
       apply (auto simp add: worker_defs run append_failed_def)
    done
next
  assume "(w, connecting) =
    (worker_local_ioredis, [ConsoleLog (Connecting_to_Qdrant (QDRANT_URL env))])"
  then have w: "w = worker_local_ioredis"
    "connecting = [ConsoleLog (Connecting_to_Qdrant (QDRANT_URL env))]"
    by simp_all
  show ?thesis
    unfolding w
    apply (rule conjI)
     apply (simp add: worker_local_ioredis_def outcome_def bnd_apply emit_apply
              catch_and_log_returns)
    apply (rule conjI)
     apply (simp add: worker_download_def outcome_def bnd_apply emit_apply catch_and_log_returns)
    apply (cases "fromExistingCollection env (qdrant env)";
           cases "addDocuments env (qdrant env) chunks")
       apply (auto simp add: worker_defs run append_failed_def)
    done
qed

theorem exceptions_outside_the_append_are_logged_sample:
  "outcome (worker_local env_bad_pdf job_disk) = Inr () \<and>
   trace (worker_local env_bad_pdf job_disk) =
     [ConsoleLog (Processing_job job_disk), PdfLoad (Some ''uploads/gifts.pdf-17-42''),
      ConsoleError (Error_processing_PDF (Error ''Invalid PDF structure''))] \<and>
   trace (worker_download env_bad_pdf job_cloud) =
     [ConsoleLog (Processing_job job_cloud),
      AxiosGet ''https://res.cloudinary.com/demo/raw/upload/pdfs/gifts.pdf'',
      WriteFileSync ''/tmp/gifts.pdf'' ''%PDF-1.4'',
      ConsoleLog (PDF_downloaded ''/tmp/gifts.pdf''),
      PdfLoad (Some ''/tmp/gifts.pdf''),
      ConsoleError (Error_processing_PDF (Error ''Invalid PDF structure''))] \<and>
   trace (worker_local_ioredis env_no_collection job_disk) =
     [ConsoleLog (Processing_job job_disk), PdfLoad (Some ''uploads/gifts.pdf-17-42''),
      ConsoleLog (Loaded_docs 2), SplitDocuments 1000 200 [page1, page2],
      ConsoleLog (Split_into_chunks 2), NewEmbeddings modelName,
      ConsoleLog (Connecting_to_Qdrant None),
      FromExistingCollection (qdrant env_no_collection),
      ConsoleLog Collection_not_found,
      FromDocuments [page1, page2] (qdrant env_no_collection),
      ConsoleLog (Created_collection 2)] \<and>
   trace (worker_download env_qdrant_down job_cloud) =
     [ConsoleLog (Processing_job job_cloud),
      AxiosGet ''https://res.cloudinary.com/demo/raw/upload/pdfs/gifts.pdf'',
      WriteFileSync ''/tmp/gifts.pdf'' ''%PDF-1.4'',
      ConsoleLog (PDF_downloaded ''/tmp/gifts.pdf''),
      PdfLoad (Some ''/tmp/gifts.pdf''),
      ConsoleLog (Loaded_docs 2), SplitDocuments 1000 200 [page1, page2],
      ConsoleLog (Split_into_chunks 2), NewEmbeddings modelName,
      ConsoleLog (Connecting_to_Qdrant None),
      FromExistingCollection (qdrant env_qdrant_down),
      ConsoleLog Collection_not_found,
      FromDocuments [page1, page2] (qdrant env_qdrant_down),
      ConsoleError (Error_processing_PDF (Error ''fetch failed''))]"
proof -
  let ?u = "''https://res.cloudinary.com/demo/raw/upload/pdfs/gifts.pdf''"
  let ?pages = "[page1, page2]"
  have plain: "(worker_local, []) = (worker_local, []) \<or>
      (worker_local, []) =
        (worker_local_ioredis, [ConsoleLog (Connecting_to_Qdrant (QDRANT_URL env))])" for env
    by simp
  have logged: "(worker_local_ioredis, [ConsoleLog (Connecting_to_Qdrant (QDRANT_URL env))])
        = (worker_local, []) \<or>
      (worker_local_ioredis, [ConsoleLog (Connecting_to_Qdrant (QDRANT_URL env))]) =
        (worker_local_ioredis, [ConsoleLog (Connecting_to_Qdrant (QDRANT_URL env))])" for env
    by simp
  have bad_disk: "pdf_load env_bad_pdf (path job_disk) = Inl (Error ''Invalid PDF structure'')"
    by (simp add: sample_defs)
  have bad_cloud: "url job_cloud = Some ?u" "?u \<noteq> []"
    "axios_get env_bad_pdf ?u = Inr ''%PDF-1.4''"
    "writeFileSync env_bad_pdf (tempFilePath env_bad_pdf ?u) ''%PDF-1.4'' = Inr ()"
    "pdf_load env_bad_pdf (Some (tempFilePath env_bad_pdf ?u))
       = Inl (Error ''Invalid PDF structure'')"
    by (simp_all add: sample_defs)
  have missing: "pdf_load env_no_collection (path job_disk) = Inr ?pages" "?pages \<noteq> []"
    "splitDocuments env_no_collection 1000 200 ?pages = Inr ?pages"
    "newEmbeddings env_no_collection modelName = Inr ()"
    "append_failed env_no_collection ?pages"
    "fromDocuments env_no_collection ?pages (qdrant env_no_collection) = Inr ()"
    by (simp_all add: sample_defs append_failed_def)
  have down: "axios_get env_qdrant_down ?u = Inr ''%PDF-1.4''"
    "writeFileSync env_qdrant_down (tempFilePath env_qdrant_down ?u) ''%PDF-1.4'' = Inr ()"
    "pdf_load env_qdrant_down (Some (tempFilePath env_qdrant_down ?u)) = Inr ?pages"
    "splitDocuments env_qdrant_down 1000 200 ?pages = Inr ?pages"
    "newEmbeddings env_qdrant_down modelName = Inr ()"
    "append_failed env_qdrant_down ?pages"
    "fromDocuments env_qdrant_down ?pages (qdrant env_qdrant_down) = Inl (Error ''fetch failed'')"
    by (simp_all add: sample_defs append_failed_def)
  have concrete: "path job_disk = Some ''uploads/gifts.pdf-17-42''"
    "tempFilePath env_bad_pdf ?u = ''/tmp/gifts.pdf''"
    "tempFilePath env_qdrant_down ?u = ''/tmp/gifts.pdf''"
    "QDRANT_URL env_no_collection = None" "QDRANT_URL env_qdrant_down = None"
    "isl (fromExistingCollection env_no_collection (qdrant env_no_collection))"
    "isl (fromExistingCollection env_qdrant_down (qdrant env_qdrant_down))"
    by (simp_all add: sample_defs tempFilePath_def)
  from exceptions_outside_the_append_are_logged
         [OF plain, where env = env_bad_pdf and job = job_disk
            and e = "Error ''Invalid PDF structure''"] bad_disk
  have a: "outcome (worker_local env_bad_pdf job_disk) = Inr ()"
    and b: "trace (worker_local env_bad_pdf job_disk) =
      [ConsoleLog (Processing_job job_disk), PdfLoad (path job_disk),
       ConsoleError (Error_processing_PDF (Error ''Invalid PDF structure''))]"
    by blast+
  from exceptions_outside_the_append_are_logged
         [OF plain, where env = env_bad_pdf and job = job_cloud and u = ?u
            and bytes = "''%PDF-1.4''" and e = "Error ''Invalid PDF structure''"] bad_cloud
  have c: "trace (worker_download env_bad_pdf job_cloud) =
      [ConsoleLog (Processing_job job_cloud), AxiosGet ?u,
       WriteFileSync (tempFilePath env_bad_pdf ?u) ''%PDF-1.4'',
       ConsoleLog (PDF_downloaded (tempFilePath env_bad_pdf ?u)),
       PdfLoad (Some (tempFilePath env_bad_pdf ?u)),
       ConsoleError (Error_processing_PDF (Error ''Invalid PDF structure''))]"
    by blast
  from exceptions_outside_the_append_are_logged
         [OF logged, where env = env_no_collection and job = job_disk
            and docs = ?pages and chunks = ?pages] missing
  have d: "trace (worker_local_ioredis env_no_collection job_disk) =
      [ConsoleLog (Processing_job job_disk), PdfLoad (path job_disk),
       ConsoleLog (Loaded_docs (length ?pages)), SplitDocuments 1000 200 ?pages,
       ConsoleLog (Split_into_chunks (length ?pages)), NewEmbeddings modelName]
      @ [ConsoleLog (Connecting_to_Qdrant (QDRANT_URL env_no_collection))]
      @ FromExistingCollection (qdrant env_no_collection)
      # (if isl (fromExistingCollection env_no_collection (qdrant env_no_collection)) then []
         else [AddDocuments (qdrant env_no_collection) ?pages])
      @ [ConsoleLog Collection_not_found, FromDocuments ?pages (qdrant env_no_collection),
         ConsoleLog (Created_collection (length ?pages))]"
    by blast
  from exceptions_outside_the_append_are_logged
         [OF plain, where env = env_qdrant_down and job = job_cloud and u = ?u
            and bytes = "''%PDF-1.4''" and docs = ?pages and chunks = ?pages
            and e = "Error ''fetch failed''"] bad_cloud(1,2) down
  have f: "trace (worker_download env_qdrant_down job_cloud) =
      [ConsoleLog (Processing_job job_cloud), AxiosGet ?u,
       WriteFileSync (tempFilePath env_qdrant_down ?u) ''%PDF-1.4'',
       ConsoleLog (PDF_downloaded (tempFilePath env_qdrant_down ?u)),
       PdfLoad (Some (tempFilePath env_qdrant_down ?u)),
       ConsoleLog (Loaded_docs (length ?pages)), SplitDocuments 1000 200 ?pages,
       ConsoleLog (Split_into_chunks (length ?pages)), NewEmbeddings modelName,
       ConsoleLog (Connecting_to_Qdrant (QDRANT_URL env_qdrant_down)),
       FromExistingCollection (qdrant env_qdrant_down)]
      @ (if isl (fromExistingCollection env_qdrant_down (qdrant env_qdrant_down)) then []
         else [AddDocuments (qdrant env_qdrant_down) ?pages])
      @ [ConsoleLog Collection_not_found, FromDocuments ?pages (qdrant env_qdrant_down),
         ConsoleError (Error_processing_PDF (Error ''fetch failed''))]"
    by blast
  from a b c d f show ?thesis
    by (simp add: concrete)
qed

text \<open>
  The statement of C4 that the failed job reaches the queue as a failure does not hold:
  here the PDF loader throws, and the processor still returns normally.
\<close>

theorem load_failure_is_acknowledged:
  "pdf_load env_bad_pdf (path job_disk) = Inl (Error ''Invalid PDF structure'') \<and>
   \<not> isl (outcome (worker_local env_bad_pdf job_disk)) \<and>
   outcome (worker_local env_bad_pdf job_disk) = Inr ()"
  by (simp add: worker_defs run sample_defs)

section \<open>The worker: files\<close>

text \<open>Blocks that add no event of a kind, composed statement by statement.\<close>

lemma silent_emit: "\<not> P ev \<Longrightarrow> silent_on P (emit ev)"
  by (simp add: silent_on_def emit_def)

lemma silent_call: "\<not> P ev \<Longrightarrow> silent_on P (call ev r)"
  by (simp add: silent_on_def call_def)

lemma silent_ret: "silent_on P (ret v)"
  by (simp add: silent_on_def ret_def)

lemma silent_bnd:
  assumes "silent_on P m" and "\<And>v. silent_on P (k v)"
  shows "silent_on P (bnd m k)"
  unfolding silent_on_def
proof
  fix tr
  show "filter P (snd (bnd m k tr)) = filter P tr"
  proof (cases "m tr")
    case (Pair r tr')
    with assms(1) have tr': "filter P tr' = filter P tr"
      by (auto simp: silent_on_def dest: spec [of _ tr])
    show ?thesis
    proof (cases r)
      case (Inl e)
      with Pair tr' show ?thesis by (simp add: bnd_def)
    next
      case (Inr v)
      from assms(2) [of v] have "filter P (snd (k v tr')) = filter P tr'"
        by (simp add: silent_on_def)
      with Pair Inr tr' show ?thesis by (simp add: bnd_def)
    qed
  qed
qed

lemma silent_try_catch:
  assumes "silent_on P m" and "\<And>e. silent_on P (h e)"
  shows "silent_on P (try_catch m h)"
  unfolding silent_on_def
proof
  fix tr
  show "filter P (snd (try_catch m h tr)) = filter P tr"
  proof (cases "m tr")
    case (Pair r tr')
    with assms(1) have tr': "filter P tr' = filter P tr"
      by (auto simp: silent_on_def dest: spec [of _ tr])
    show ?thesis
    proof (cases r)
      case (Inl e)
      from assms(2) [of e] have "filter P (snd (h e tr')) = filter P tr'"
        by (simp add: silent_on_def)
      with Pair Inl tr' show ?thesis by (simp add: try_catch_def)
    next
      case (Inr v)
      with Pair tr' show ?thesis by (simp add: try_catch_def)
    qed
  qed
qed

lemma silent_if:
  "silent_on P a \<Longrightarrow> silent_on P b \<Longrightarrow> silent_on P (if c then a else b)"
  by simp

lemma silent_trace: "silent_on P m \<Longrightarrow> filter P (trace m) = []"
  by (simp add: silent_on_def trace_def)

lemmas silent_intros = silent_bnd silent_try_catch silent_if silent_emit silent_call silent_ret

lemma worker_local_never_unlinks: "silent_on is_unlink (worker_local env job)"
  unfolding worker_local_def worker_local_try_def
  by (intro silent_intros) simp_all

lemma worker_local_ioredis_never_unlinks: "silent_on is_unlink (worker_local_ioredis env job)"
  unfolding worker_local_ioredis_def worker_local_ioredis_try_def
  by (intro silent_intros) simp_all

lemma upload_pdf_never_unlinks: "silent_on is_unlink (upload_pdf env req_file)"
  unfolding upload_pdf_def Let_def
  by (cases req_file) (auto intro!: silent_intros)

lemma upload_pdf_local_never_unlinks: "silent_on is_unlink (upload_pdf_local env req_file)"
  unfolding upload_pdf_local_def Let_def
  by (cases req_file) (auto intro!: silent_intros)

text \<open>
  \<^bold>\<open>C5, as the code has it.\<close> The direct-upload workers remove no file, and neither
  upload handler does: the uploaded document stays where multer stored it. The
  remote-download worker removes one file, the temporary copy it wrote under \<open>/tmp\<close>.
  When its chunks are ready, its calls on the index and on the file system's removal are
  the upsert calls followed by the removal of that copy, and the removal is there exactly
  when the index write succeeded: the append did not throw, or the create that followed a
  failed append did not throw. When the job ends before the chunks are ready (no usable
  url, or a throw of the download, the file write, the loader, the splitter or the
  embedding model, or an empty loader result), nothing is removed.
\<close>

theorem temp_file_removed_iff_index_written:
  "filter is_unlink (trace (worker_local env job)) = [] \<and>
   filter is_unlink (trace (worker_local_ioredis env job)) = [] \<and>
   filter is_unlink (trace (upload_pdf env req_file)) = [] \<and>
   filter is_unlink (trace (upload_pdf_local env req_file)) = [] \<and>
   (url job = Some u \<and> u \<noteq> [] \<and> axios_get env u = Inr bytes \<and>
    writeFileSync env (tempFilePath env u) bytes = Inr () \<and>
    pdf_load env (Some (tempFilePath env u)) = Inr docs \<and> docs \<noteq> [] \<and>
    splitDocuments env 1000 200 docs = Inr chunks \<and>
    newEmbeddings env modelName = Inr () \<longrightarrow>
      filter (\<lambda>ev. is_index_call ev \<or> is_unlink ev) (trace (worker_download env job)) =
        append_then_create env chunks
        @ (if append_failed env chunks \<and> isl (fromDocuments env chunks (qdrant env)) then []
           else [UnlinkSync (tempFilePath env u)])) \<and>
   (url job = None \<or> url job = Some [] \<or>
    url job = Some u \<and>
      (isl (axios_get env u) \<or>
       axios_get env u = Inr bytes \<and>
         (isl (writeFileSync env (tempFilePath env u) bytes) \<or>
          writeFileSync env (tempFilePath env u) bytes = Inr () \<and>
            (isl (pdf_load env (Some (tempFilePath env u))) \<or>
             pdf_load env (Some (tempFilePath env u)) = Inr [] \<or>
             pdf_load env (Some (tempFilePath env u)) = Inr docs \<and>
               (isl (splitDocuments env 1000 200 docs) \<or>
                splitDocuments env 1000 200 docs = Inr chunks \<and>
                  isl (newEmbeddings env modelName))))) \<longrightarrow>
      filter is_unlink (trace (worker_download env job)) = [])"
proof (intro conjI impI)
  show "filter is_unlink (trace (worker_local env job)) = []"
    and "filter is_unlink (trace (worker_local_ioredis env job)) = []"
    and "filter is_unlink (trace (upload_pdf env req_file)) = []"
    and "filter is_unlink (trace (upload_pdf_local env req_file)) = []"
    by (simp_all add: silent_trace worker_local_never_unlinks worker_local_ioredis_never_unlinks
          upload_pdf_never_unlinks upload_pdf_local_never_unlinks)
next
  assume "url job = Some u \<and> u \<noteq> [] \<and> axios_get env u = Inr bytes \<and>
    writeFileSync env (tempFilePath env u) bytes = Inr () \<and>
    pdf_load env (Some (tempFilePath env u)) = Inr docs \<and> docs \<noteq> [] \<and>
    splitDocuments env 1000 200 docs = Inr chunks \<and>
    newEmbeddings env modelName = Inr ()"
  then show "filter (\<lambda>ev. is_index_call ev \<or> is_unlink ev) (trace (worker_download env job)) =
        append_then_create env chunks
        @ (if append_failed env chunks \<and> isl (fromDocuments env chunks (qdrant env)) then []
           else [UnlinkSync (tempFilePath env u)])"
    by (cases "fromExistingCollection env (qdrant env)";
        cases "addDocuments env (qdrant env) chunks";
        cases "fromDocuments env chunks (qdrant env)";
        cases "unlinkSync env (tempFilePath env u)")
       (simp_all add: worker_defs run append_then_create_def append_failed_def)
next
  assume "url job = None \<or> url job = Some [] \<or>
    url job = Some u \<and>
      (isl (axios_get env u) \<or>
       axios_get env u = Inr bytes \<and>
         (isl (writeFileSync env (tempFilePath env u) bytes) \<or>
          writeFileSync env (tempFilePath env u) bytes = Inr () \<and>
            (isl (pdf_load env (Some (tempFilePath env u))) \<or>
             pdf_load env (Some (tempFilePath env u)) = Inr [] \<or>
             pdf_load env (Some (tempFilePath env u)) = Inr docs \<and>
               (isl (splitDocuments env 1000 200 docs) \<or>
                splitDocuments env 1000 200 docs = Inr chunks \<and>
                  isl (newEmbeddings env modelName)))))"
  then show "filter is_unlink (trace (worker_download env job)) = []"
    by (auto simp: worker_defs run isl_def)
qed

theorem temp_file_removed_iff_index_written_sample:
  "filter (\<lambda>ev. is_index_call ev \<or> is_unlink ev) (trace (worker_download env_ok job_cloud)) =
     [FromExistingCollection (qdrant env_ok), AddDocuments (qdrant env_ok) [page1, page2],
      UnlinkSync ''/tmp/gifts.pdf''] \<and>
   filter (\<lambda>ev. is_index_call ev \<or> is_unlink ev)
       (trace (worker_download env_no_collection job_cloud)) =
     [FromExistingCollection (qdrant env_no_collection),
      FromDocuments [page1, page2] (qdrant env_no_collection),
      UnlinkSync ''/tmp/gifts.pdf''] \<and>
   filter (\<lambda>ev. is_index_call ev \<or> is_unlink ev)
       (trace (worker_download env_qdrant_down job_cloud)) =
     [FromExistingCollection (qdrant env_qdrant_down),
      FromDocuments [page1, page2] (qdrant env_qdrant_down)] \<and>
   filter is_unlink (trace (worker_download env_bad_pdf job_cloud)) = [] \<and>
   filter is_unlink (trace (worker_local env_ok job_disk)) = []"
proof -
  let ?u = "''https://res.cloudinary.com/demo/raw/upload/pdfs/gifts.pdf''"
  let ?pages = "[page1, page2]"
  have ready: "url job_cloud = Some ?u \<and> ?u \<noteq> [] \<and> axios_get env ?u = Inr ''%PDF-1.4'' \<and>
      writeFileSync env (tempFilePath env ?u) ''%PDF-1.4'' = Inr () \<and>
      pdf_load env (Some (tempFilePath env ?u)) = Inr ?pages \<and> ?pages \<noteq> [] \<and>
      splitDocuments env 1000 200 ?pages = Inr ?pages \<and>
      newEmbeddings env modelName = Inr ()"
    if "env = env_ok \<or> env = env_no_collection \<or> env = env_qdrant_down" for env
    using that by (auto simp: sample_defs)
  have not_ready: "url job_cloud = Some ?u \<and>
      axios_get env_bad_pdf ?u = Inr ''%PDF-1.4'' \<and>
      writeFileSync env_bad_pdf (tempFilePath env_bad_pdf ?u) ''%PDF-1.4'' = Inr () \<and>
      isl (pdf_load env_bad_pdf (Some (tempFilePath env_bad_pdf ?u)))"
    by (simp add: sample_defs)
  have concrete: "tempFilePath env_ok ?u = ''/tmp/gifts.pdf''"
    "tempFilePath env_no_collection ?u = ''/tmp/gifts.pdf''"
    "append_then_create env_ok ?pages =
       [FromExistingCollection (qdrant env_ok), AddDocuments (qdrant env_ok) ?pages]"
    "append_then_create env_no_collection ?pages =
       [FromExistingCollection (qdrant env_no_collection),
        FromDocuments ?pages (qdrant env_no_collection)]"
    "append_then_create env_qdrant_down ?pages =
       [FromExistingCollection (qdrant env_qdrant_down),
        FromDocuments ?pages (qdrant env_qdrant_down)]"
    "\<not> append_failed env_ok ?pages"
    "\<not> isl (fromDocuments env_no_collection ?pages (qdrant env_no_collection))"
    "append_failed env_qdrant_down ?pages"
    "isl (fromDocuments env_qdrant_down ?pages (qdrant env_qdrant_down))"
    by (simp_all add: sample_defs tempFilePath_def append_then_create_def append_failed_def)
  from temp_file_removed_iff_index_written
         [where env = env_ok and job = job_cloud and u = ?u and bytes = "''%PDF-1.4''"
            and docs = ?pages and chunks = ?pages] ready [of env_ok]
  have a: "filter (\<lambda>ev. is_index_call ev \<or> is_unlink ev)
        (trace (worker_download env_ok job_cloud)) =
      append_then_create env_ok ?pages
      @ (if append_failed env_ok ?pages \<and> isl (fromDocuments env_ok ?pages (qdrant env_ok))
         then [] else [UnlinkSync (tempFilePath env_ok ?u)])"
    by blast
  from temp_file_removed_iff_index_written
         [where env = env_no_collection and job = job_cloud and u = ?u
            and bytes = "''%PDF-1.4''" and docs = ?pages and chunks = ?pages]
       ready [of env_no_collection]
  have b: "filter (\<lambda>ev. is_index_call ev \<or> is_unlink ev)
        (trace (worker_download env_no_collection job_cloud)) =
      append_then_create env_no_collection ?pages
      @ (if append_failed env_no_collection ?pages \<and>
            isl (fromDocuments env_no_collection ?pages (qdrant env_no_collection))
         then [] else [UnlinkSync (tempFilePath env_no_collection ?u)])"
    by blast
  from temp_file_removed_iff_index_written
         [where env = env_qdrant_down and job = job_cloud and u = ?u
            and bytes = "''%PDF-1.4''" and docs = ?pages and chunks = ?pages]
       ready [of env_qdrant_down]
  have c: "filter (\<lambda>ev. is_index_call ev \<or> is_unlink ev)
        (trace (worker_download env_qdrant_down job_cloud)) =
      append_then_create env_qdrant_down ?pages
      @ (if append_failed env_qdrant_down ?pages \<and>
            isl (fromDocuments env_qdrant_down ?pages (qdrant env_qdrant_down))
         then [] else [UnlinkSync (tempFilePath env_qdrant_down ?u)])"
    by blast
  from temp_file_removed_iff_index_written
         [where env = env_bad_pdf and job = job_cloud and u = ?u and bytes = "''%PDF-1.4''"]
       not_ready
  have d: "filter is_unlink (trace (worker_download env_bad_pdf job_cloud)) = []"
    by blast
  from temp_file_removed_iff_index_written [where env = env_ok and job = job_disk]
  have f: "filter is_unlink (trace (worker_local env_ok job_disk)) = []"
    by blast
  from a b c d f show ?thesis
    by (simp add: concrete)
qed

text \<open>
  The statement of C5 that the worker removes the uploaded document after indexing it does
  not hold: the direct-upload worker reads the file at \<open>job.data.path\<close>, appends its
  chunks to the collection, and its run has no removal at all.
\<close>

theorem uploaded_file_stays_on_disk:
  "path job_disk = Some ''uploads/gifts.pdf-17-42'' \<and>
   trace (worker_local env_ok job_disk) =
     [ConsoleLog (Processing_job job_disk), PdfLoad (Some ''uploads/gifts.pdf-17-42''),
      ConsoleLog (Loaded_docs 2), SplitDocuments 1000 200 [page1, page2],
      ConsoleLog (Split_into_chunks 2), NewEmbeddings modelName,
      FromExistingCollection (qdrant env_ok), AddDocuments (qdrant env_ok) [page1, page2],
      ConsoleLog (Added_chunks 2)] \<and>
   addDocuments env_ok (qdrant env_ok) [page1, page2] = Inr () \<and>
   UnlinkSync ''uploads/gifts.pdf-17-42'' \<notin> set (trace (worker_local env_ok job_disk)) \<and>
   filter is_unlink (trace (worker_local env_ok job_disk)) = []"
  by (simp add: worker_defs run sample_defs)

section \<open>The HTTP service: answering a query\<close>

lemma details_payload: "response_data e = Some payload \<Longrightarrow> payload \<noteq> [] \<Longrightarrow> details e = payload"
  by (simp add: details_def or_default_def)

lemma details_message: "response_data e = None \<Longrightarrow> details e = message e"
  by (simp add: details_def or_default_def)

lemma chat_ok:
  assumes "q \<noteq> []" and "newEmbeddings env modelName = Inr ()"
    and "fromExistingCollection env (qdrant env) = Inr ()"
    and "retriever_invoke env (qdrant env) 2 q = Inr docs"
    and "axios_post env (completion_request env (SYSTEM_PROMPT docs) q) = Inr (Some (Message answer # others))"
  shows "outcome (chat env (Some q)) =
           Inr \<lparr>status = 200, body = Chat_body answer (map pageContent docs)\<rparr>"
    and "effects (trace (chat env (Some q))) =
           [NewEmbeddings modelName, FromExistingCollection (qdrant env),
            RetrieverInvoke (qdrant env) 2 q,
            AxiosPost (completion_request env (SYSTEM_PROMPT docs) q)]"
  using assms by (simp_all add: chat_def run first_choice_def effects_def)

lemma chat_local_ok:
  assumes "q \<noteq> []" and "newEmbeddings env modelName = Inr ()"
    and "fromExistingCollection env (qdrant env) = Inr ()"
    and "retriever_invoke env (qdrant env) 2 q = Inr docs"
    and "axios_post env (completion_request env (SYSTEM_PROMPT_local docs) q) = Inr (Some (Message answer # others))"
  shows "outcome (chat_local env (Some q)) =
           Inr \<lparr>status = 200, body = Chat_body answer (map pageContent docs)\<rparr>"
    and "effects (trace (chat_local env (Some q))) =
           [NewEmbeddings modelName, FromExistingCollection (qdrant env),
            RetrieverInvoke (qdrant env) 2 q,
            AxiosPost (completion_request env (SYSTEM_PROMPT_local docs) q)]"
  using assms by (simp_all add: chat_local_def run first_choice_def effects_def)

lemma chat_500:
  assumes "q \<noteq> []"
    and "newEmbeddings env modelName = Inl e \<or>
         newEmbeddings env modelName = Inr () \<and>
           fromExistingCollection env (qdrant env) = Inl e \<or>
         newEmbeddings env modelName = Inr () \<and>
           fromExistingCollection env (qdrant env) = Inr () \<and>
           retriever_invoke env (qdrant env) 2 q = Inl e \<or>
         newEmbeddings env modelName = Inr () \<and>
           fromExistingCollection env (qdrant env) = Inr () \<and>
           retriever_invoke env (qdrant env) 2 q = Inr docs \<and>
           axios_post env (completion_request env (SYSTEM_PROMPT docs) q) = Inl e"
  shows "outcome (chat env (Some q)) =
           Inr \<lparr>status = 500, body = Error_details_body ''Internal server error'' (details e)\<rparr>"
  using assms(2)
proof (elim disjE conjE)
  assume "newEmbeddings env modelName = Inl e"
  with assms(1) show ?thesis by (simp add: chat_def run)
next
  assume "newEmbeddings env modelName = Inr ()"
    and "fromExistingCollection env (qdrant env) = Inl e"
  with assms(1) show ?thesis by (simp add: chat_def run)
next
  assume "newEmbeddings env modelName = Inr ()"
    and "fromExistingCollection env (qdrant env) = Inr ()"
    and "retriever_invoke env (qdrant env) 2 q = Inl e"
  with assms(1) show ?thesis by (simp add: chat_def run)
next
  assume "newEmbeddings env modelName = Inr ()"
    and "fromExistingCollection env (qdrant env) = Inr ()"
    and "retriever_invoke env (qdrant env) 2 q = Inr docs"
    and "axios_post env (completion_request env (SYSTEM_PROMPT docs) q) = Inl e"
  with assms(1) show ?thesis by (simp add: chat_def run)
qed

lemma chat_local_500:
  assumes "q \<noteq> []"
    and "newEmbeddings env modelName = Inl e \<or>
         newEmbeddings env modelName = Inr () \<and>
           fromExistingCollection env (qdrant env) = Inl e \<or>
         newEmbeddings env modelName = Inr () \<and>
           fromExistingCollection env (qdrant env) = Inr () \<and>
           retriever_invoke env (qdrant env) 2 q = Inl e \<or>
         newEmbeddings env modelName = Inr () \<and>
           fromExistingCollection env (qdrant env) = Inr () \<and>
           retriever_invoke env (qdrant env) 2 q = Inr docs \<and>
           axios_post env (completion_request env (SYSTEM_PROMPT_local docs) q) = Inl e"
  shows "outcome (chat_local env (Some q)) =
           Inr \<lparr>status = 500, body = Error_details_body ''Internal server error'' (details e)\<rparr>"
  using assms(2)
proof (elim disjE conjE)
  assume "newEmbeddings env modelName = Inl e"
  with assms(1) show ?thesis by (simp add: chat_local_def run)
next
  assume "newEmbeddings env modelName = Inr ()"
    and "fromExistingCollection env (qdrant env) = Inl e"
  with assms(1) show ?thesis by (simp add: chat_local_def run)
next
  assume "newEmbeddings env modelName = Inr ()"
    and "fromExistingCollection env (qdrant env) = Inr ()"
    and "retriever_invoke env (qdrant env) 2 q = Inl e"
  with assms(1) show ?thesis by (simp add: chat_local_def run)
next
  assume "newEmbeddings env modelName = Inr ()"
    and "fromExistingCollection env (qdrant env) = Inr ()"
    and "retriever_invoke env (qdrant env) 2 q = Inr docs"
    and "axios_post env (completion_request env (SYSTEM_PROMPT_local docs) q) = Inl e"
  with assms(1) show ?thesis by (simp add: chat_local_def run)
qed

text \<open>
  A response without a first choice: the property read throws inside the \<open>try\<close>, and the
  answer is 500 with the TypeError's message.
\<close>

lemma chat_without_choice:
  assumes "q \<noteq> []" and "newEmbeddings env modelName = Inr ()"
    and "fromExistingCollection env (qdrant env) = Inr ()"
    and "retriever_invoke env (qdrant env) 2 q = Inr docs"
    and "axios_post env (completion_request env (SYSTEM_PROMPT docs) q) = Inr (Some [])"
  shows "outcome (chat env (Some q)) =
           Inr \<lparr>status = 500,
                body = Error_details_body ''Internal server error''
                         ''Cannot read properties of undefined (reading 'message')''\<rparr>"
  using assms
  by (simp add: chat_def run first_choice_def details_def or_default_def Error_def)

text \<open>
  \<^bold>\<open>C6.\<close> For a non-empty query, on either server (\<open>h\<close> is the handler, \<open>prompt\<close>
  its system prompt): when the embedding model, the connection to the collection, the
  retrieval with \<open>k = 2\<close> and the chat-completion request all succeed, the response is
  200 with the content of the first choice as the answer and the texts of the retrieved
  documents, in order, and these four calls are all the handler made. When one of the
  four throws \<open>e\<close>, the response is 500 "Internal server error" with the details of
  \<open>e\<close>: the upstream payload when the error carries a non-empty one, its message when
  it carries none.
\<close>

theorem chat_answers_or_reports_500:
  assumes "(h, prompt) = (chat, SYSTEM_PROMPT) \<or> (h, prompt) = (chat_local, SYSTEM_PROMPT_local)"
    and "q \<noteq> []"
  shows
   "(newEmbeddings env modelName = Inr () \<and>
     fromExistingCollection env (qdrant env) = Inr () \<and>
     retriever_invoke env (qdrant env) 2 q = Inr docs \<and>
     axios_post env (completion_request env (prompt docs) q) = Inr (Some (Message answer # others)) \<longrightarrow>
       outcome (h env (Some q)) =
         Inr \<lparr>status = 200, body = Chat_body answer (map pageContent docs)\<rparr> \<and>
       effects (trace (h env (Some q))) =
         [NewEmbeddings modelName, FromExistingCollection (qdrant env),
          RetrieverInvoke (qdrant env) 2 q,
          AxiosPost (completion_request env (prompt docs) q)]) \<and>
    (newEmbeddings env modelName = Inl e \<or>
     newEmbeddings env modelName = Inr () \<and>
       fromExistingCollection env (qdrant env) = Inl e \<or>
     newEmbeddings env modelName = Inr () \<and>
       fromExistingCollection env (qdrant env) = Inr () \<and>
       retriever_invoke env (qdrant env) 2 q = Inl e \<or>
     newEmbeddings env modelName = Inr () \<and>
       fromExistingCollection env (qdrant env) = Inr () \<and>
       retriever_invoke env (qdrant env) 2 q = Inr docs \<and>
       axios_post env (completion_request env (prompt docs) q) = Inl e \<longrightarrow>
       outcome (h env (Some q)) =
         Inr \<lparr>status = 500,
              body = Error_details_body ''Internal server error'' (details e)\<rparr>) \<and>
    (response_data e = Some payload \<and> payload \<noteq> [] \<longrightarrow> details e = payload) \<and>
    (response_data e = None \<longrightarrow> details e = message e)"
  using assms(1)
proof (elim disjE)
  assume "(h, prompt) = (chat, SYSTEM_PROMPT)"
  then have h: "h = chat" and p: "prompt = SYSTEM_PROMPT"
    by simp_all
  show ?thesis
    unfolding h p
    using chat_ok [OF assms(2), of env docs answer others] chat_500 [OF assms(2), of env e docs]
    by (auto simp: details_payload details_message)
next
  assume "(h, prompt) = (chat_local, SYSTEM_PROMPT_local)"
  then have h: "h = chat_local" and p: "prompt = SYSTEM_PROMPT_local"
    by simp_all
  show ?thesis
    unfolding h p
    using chat_local_ok [OF assms(2), of env docs answer others]
      chat_local_500 [OF assms(2), of env e docs]
    by (auto simp: details_payload details_message)
qed

theorem chat_answers_or_reports_500_sample:
  "outcome (chat env_ok (Some question)) =
     Inr \<lparr>status = 200,
          body = Chat_body ''Tulips.'' [''Gift ideas for spring.'', ''Wrap with care.'']\<rparr> \<and>
   effects (trace (chat_local env_ok (Some question))) =
     [NewEmbeddings modelName, FromExistingCollection (qdrant env_ok),
      RetrieverInvoke (qdrant env_ok) 2 question,
      AxiosPost (completion_request env_ok (SYSTEM_PROMPT_local [page1, page2]) question)] \<and>
   outcome (chat env_401 (Some question)) =
     Inr \<lparr>status = 500,
          body = Error_details_body ''Internal server error'' ''No auth credentials found''\<rparr> \<and>
   outcome (chat_local env_no_collection (Some question)) =
     Inr \<lparr>status = 500, body = Error_details_body ''Internal server error'' ''Not found''\<rparr>"
proof -
  have q: "question \<noteq> []"
    by (simp add: question_def)
  have ok: "newEmbeddings env_ok modelName = Inr () \<and>
      fromExistingCollection env_ok (qdrant env_ok) = Inr () \<and>
      retriever_invoke env_ok (qdrant env_ok) 2 question = Inr [page1, page2] \<and>
      axios_post env_ok (completion_request env_ok (prompt [page1, page2]) question)
        = Inr (Some [Message ''Tulips.''])" for prompt
    by (simp add: env_ok_def)
  have unauthorized: "newEmbeddings env_401 modelName = Inr () \<and>
      fromExistingCollection env_401 (qdrant env_401) = Inr () \<and>
      retriever_invoke env_401 (qdrant env_401) 2 question = Inr [page1, page2] \<and>
      axios_post env_401 (completion_request env_401 (SYSTEM_PROMPT [page1, page2]) question)
        = Inl upstream_401"
    by (simp add: env_401_def env_ok_def)
  have missing: "newEmbeddings env_no_collection modelName = Inr () \<and>
      fromExistingCollection env_no_collection (qdrant env_no_collection)
        = Inl (Error ''Not found'')"
    by (simp add: env_no_collection_def env_ok_def)
  have payload: "response_data upstream_401 = Some ''No auth credentials found'' \<and>
      ''No auth credentials found'' \<noteq> []"
    by (simp add: upstream_401_def)
  have no_payload: "response_data (Error ''Not found'') = None"
    by (simp add: Error_def)
  from chat_answers_or_reports_500
         [where h = chat and prompt = SYSTEM_PROMPT and q = question and env = env_ok
            and docs = "[page1, page2]" and answer = "''Tulips.''" and others = "[]"] q ok
  have a: "outcome (chat env_ok (Some question)) =
      Inr \<lparr>status = 200, body = Chat_body ''Tulips.'' (map pageContent [page1, page2])\<rparr>"
    by blast
  from chat_answers_or_reports_500
         [where h = chat_local and prompt = SYSTEM_PROMPT_local and q = question
            and env = env_ok and docs = "[page1, page2]" and answer = "''Tulips.''"
            and others = "[]"] q ok
  have b: "effects (trace (chat_local env_ok (Some question))) =
      [NewEmbeddings modelName, FromExistingCollection (qdrant env_ok),
       RetrieverInvoke (qdrant env_ok) 2 question,
       AxiosPost (completion_request env_ok (SYSTEM_PROMPT_local [page1, page2]) question)]"
    by blast
  from chat_answers_or_reports_500
         [where h = chat and prompt = SYSTEM_PROMPT and q = question and env = env_401
            and docs = "[page1, page2]" and e = upstream_401
            and payload = "''No auth credentials found''"] q unauthorized payload
  have c: "outcome (chat env_401 (Some question)) =
      Inr \<lparr>status = 500,
           body = Error_details_body ''Internal server error'' ''No auth credentials found''\<rparr>"
    by force
  from chat_answers_or_reports_500
         [where h = chat_local and prompt = SYSTEM_PROMPT_local and q = question
            and env = env_no_collection and e = "Error ''Not found''"] q missing no_payload
  have d: "outcome (chat_local env_no_collection (Some question)) =
      Inr \<lparr>status = 500,
           body = Error_details_body ''Internal server error'' (message (Error ''Not found''))\<rparr>"
    by force
  from a b c d show ?thesis
    by (simp add: page1_def page2_def Error_def)
qed

section \<open>The HTTP service: the system prompt\<close>

lemma chat_model_call:
  assumes "q \<noteq> []" and "newEmbeddings env modelName = Inr ()"
    and "fromExistingCollection env (qdrant env) = Inr ()"
    and "retriever_invoke env (qdrant env) 2 q = Inr docs"
  shows "filter is_model_call (trace (chat env (Some q))) =
           [AxiosPost (completion_request env (SYSTEM_PROMPT docs) q)]"
proof (cases "axios_post env (completion_request env (SYSTEM_PROMPT docs) q)")
  case (Inl e)
  with assms show ?thesis by (simp add: chat_def run)
next
  case (Inr choices)
  with assms show ?thesis
    by (simp add: chat_def run first_choice_def
          split: option.splits list.splits choice.splits)
qed

lemma chat_local_model_call:
  assumes "q \<noteq> []" and "newEmbeddings env modelName = Inr ()"
    and "fromExistingCollection env (qdrant env) = Inr ()"
    and "retriever_invoke env (qdrant env) 2 q = Inr docs"
  shows "filter is_model_call (trace (chat_local env (Some q))) =
           [AxiosPost (completion_request env (SYSTEM_PROMPT_local docs) q)]"
proof (cases "axios_post env (completion_request env (SYSTEM_PROMPT_local docs) q)")
  case (Inl e)
  with assms show ?thesis by (simp add: chat_local_def run)
next
  case (Inr choices)
  with assms show ?thesis
    by (simp add: chat_local_def run first_choice_def
          split: option.splits list.splits choice.splits)
qed

text \<open>
  \<open>join\<close> on a list of any length: nothing for the empty list, else the first element
  followed by every other element behind a separator. Each element is in the result as it
  is.
\<close>

lemma join_closed:
  "join sep xs = (case xs of [] \<Rightarrow> [] | x # rest \<Rightarrow> x @ concat (map (\<lambda>y. sep @ y) rest))"
  by (induction sep xs rule: join.induct) simp_all

lemma join_texts:
  "join sep (map f docs) =
     (case docs of [] \<Rightarrow> [] | d # ds \<Rightarrow> f d @ concat (map (\<lambda>x. sep @ f x) ds))"
  by (simp add: join_closed comp_def split: list.splits)

lemma sublist_behind: "sublist x ys \<Longrightarrow> sublist x (ps @ ys)"
proof -
  assume "sublist x ys"
  then obtain a b where "ys = a @ x @ b"
    by (auto simp: sublist_def)
  then have "ps @ ys = (ps @ a) @ x @ b"
    by simp
  then show ?thesis
    unfolding sublist_def by blast
qed

lemma sublist_before: "sublist x ys \<Longrightarrow> sublist x (ys @ ss)"
proof -
  assume "sublist x ys"
  then obtain a b where "ys = a @ x @ b"
    by (auto simp: sublist_def)
  then have "ys @ ss = a @ x @ (b @ ss)"
    by simp
  then show ?thesis
    unfolding sublist_def by blast
qed

lemma join_keeps_each: "x \<in> set xs \<Longrightarrow> sublist x (join sep xs)"
proof (induction sep xs rule: join.induct)
  case (1 sep)
  then show ?case by simp
next
  case (2 sep y)
  then show ?case by simp
next
  case (3 sep y z zs)
  show ?case
  proof (cases "x = y")
    case True
    then show ?thesis by simp
  next
    case False
    with 3 have "sublist x (join sep (z # zs))"
      by simp
    then have "sublist x ((y @ sep) @ join sep (z # zs))"
      by (rule sublist_behind)
    then show ?thesis by simp
  qed
qed

lemma prompt_keeps_each:
  assumes "d \<in> set docs"
  shows "sublist (pageContent d) (SYSTEM_PROMPT docs)"
    and "sublist (pageContent d) (SYSTEM_PROMPT_local docs)"
proof -
  from assms have "pageContent d \<in> set (map pageContent docs)"
    by simp
  then have inner: "sublist (pageContent d) (join LF (map pageContent docs))"
    by (rule join_keeps_each)
  show "sublist (pageContent d) (SYSTEM_PROMPT docs)"
    unfolding SYSTEM_PROMPT_def
    by (intro sublist_behind sublist_before inner)
  show "sublist (pageContent d) (SYSTEM_PROMPT_local docs)"
    unfolding SYSTEM_PROMPT_local_def
    by (intro sublist_behind sublist_before inner)
qed

lemma prompt_texts:
  "SYSTEM_PROMPT docs =
      LF @ ''      You are a helpful AI Agent. Use the provided documents to answer user queries.''
      @ LF @ ''      Do not mention document sources in your answer.''
      @ LF @ ''      Context: ''
      @ (case docs of
           [] \<Rightarrow> []
         | d # ds \<Rightarrow> pageContent d @ concat (map (\<lambda>x. LF @ pageContent x) ds))
      @ LF @ ''    ''"
  "SYSTEM_PROMPT_local docs =
      LF @ ''      You are a helpful AI Agent. Use the provided documents to answer user queries.dont say in answer about document you get answer be professional''
      @ LF @ ''      Context, also dont answer question not in docs, only you can answer from docs and basic formal replies: ''
      @ (case docs of
           [] \<Rightarrow> []
         | d # ds \<Rightarrow> pageContent d @ concat (map (\<lambda>x. LF @ pageContent x) ds))
      @ LF @ ''    ''"
  by (simp_all add: SYSTEM_PROMPT_def SYSTEM_PROMPT_local_def join_texts)

text \<open>The sentences of the two instruction texts, whatever the documents are.\<close>

lemma prompt_sentences:
  "sublist ''Use the provided documents to answer user queries.'' (SYSTEM_PROMPT docs)"
  "sublist ''Do not mention document sources in your answer.'' (SYSTEM_PROMPT docs)"
  "sublist ''dont say in answer about document you get answer'' (SYSTEM_PROMPT_local docs)"
  "sublist ''only you can answer from docs and basic formal replies'' (SYSTEM_PROMPT_local docs)"
proof -
  let ?tail = "join LF (map pageContent docs) @ LF @ ''    ''"
  have "SYSTEM_PROMPT docs =
      (LF @ ''      You are a helpful AI Agent. '')
      @ ''Use the provided documents to answer user queries.''
      @ (LF @ ''      Do not mention document sources in your answer.''
         @ LF @ ''      Context: '' @ ?tail)"
    by (simp add: SYSTEM_PROMPT_def)
  then show "sublist ''Use the provided documents to answer user queries.'' (SYSTEM_PROMPT docs)"
    unfolding sublist_def by blast
  have "SYSTEM_PROMPT docs =
      (LF @ ''      You are a helpful AI Agent. Use the provided documents to answer user queries.''
       @ LF @ ''      '')
      @ ''Do not mention document sources in your answer.''
      @ (LF @ ''      Context: '' @ ?tail)"
    by (simp add: SYSTEM_PROMPT_def)
  then show "sublist ''Do not mention document sources in your answer.'' (SYSTEM_PROMPT docs)"
    unfolding sublist_def by blast
  have "SYSTEM_PROMPT_local docs =
      (LF @ ''      You are a helpful AI Agent. Use the provided documents to answer user queries.'')
      @ ''dont say in answer about document you get answer''
      @ ('' be professional'' @ LF
         @ ''      Context, also dont answer question not in docs, only you can answer from docs and basic formal replies: ''
         @ ?tail)"
    by (simp add: SYSTEM_PROMPT_local_def)
  then show "sublist ''dont say in answer about document you get answer''
      (SYSTEM_PROMPT_local docs)"
    unfolding sublist_def by blast
  have "SYSTEM_PROMPT_local docs =
      (LF @ ''      You are a helpful AI Agent. Use the provided documents to answer user queries.dont say in answer about document you get answer be professional''
       @ LF @ ''      Context, also dont answer question not in docs, '')
      @ ''only you can answer from docs and basic formal replies''
      @ ('': '' @ ?tail)"
    by (simp add: SYSTEM_PROMPT_local_def)
  then show "sublist ''only you can answer from docs and basic formal replies''
      (SYSTEM_PROMPT_local docs)"
    unfolding sublist_def by blast
qed

lemma cloud_instructions_without_only: "\<not> sublist ''only'' (SYSTEM_PROMPT [])"
  by (simp add: SYSTEM_PROMPT_def LF_def sublist_Cons_right)

text \<open>
  \<^bold>\<open>C9, as the code has it.\<close> A \<open>/chat\<close> request that gets as far as the
  chat-completion API sends it one request, with two messages: a single system message
  and the user's query. The system message is the fixed instruction text of the server,
  then the texts of the retrieved documents, each of them unchanged, in the order the
  retriever returned them, the first right after the instruction text and every other one
  on a line of its own (for any number of documents, one included), then a line feed and
  four spaces. The instruction text of the cloud-storage server says to use the provided
  documents to answer and not to mention document sources; the word "only" is not in it,
  so it does not restrict the answer to the documents. The one of the direct-upload
  server says not to say which document the answer came from, and that only answers from
  the docs and basic formal replies are allowed.
\<close>

theorem system_prompt_is_instructions_then_chunks:
  assumes "(h, prompt) = (chat, SYSTEM_PROMPT) \<or> (h, prompt) = (chat_local, SYSTEM_PROMPT_local)"
    and "q \<noteq> []"
    and "newEmbeddings env modelName = Inr ()"
    and "fromExistingCollection env (qdrant env) = Inr ()"
    and "retriever_invoke env (qdrant env) 2 q = Inr docs"
  shows
   "filter is_model_call (trace (h env (Some q))) =
      [AxiosPost (completion_request env (prompt docs) q)] \<and>
    messages (completion_request env (prompt docs) q) =
      [(''system'', prompt docs), (''user'', q)] \<and>
    SYSTEM_PROMPT docs =
      LF @ ''      You are a helpful AI Agent. Use the provided documents to answer user queries.''
      @ LF @ ''      Do not mention document sources in your answer.''
      @ LF @ ''      Context: ''
      @ (case docs of
           [] \<Rightarrow> []
         | d # ds \<Rightarrow> pageContent d @ concat (map (\<lambda>x. LF @ pageContent x) ds))
      @ LF @ ''    '' \<and>
    SYSTEM_PROMPT_local docs =
      LF @ ''      You are a helpful AI Agent. Use the provided documents to answer user queries.dont say in answer about document you get answer be professional''
      @ LF @ ''      Context, also dont answer question not in docs, only you can answer from docs and basic formal replies: ''
      @ (case docs of
           [] \<Rightarrow> []
         | d # ds \<Rightarrow> pageContent d @ concat (map (\<lambda>x. LF @ pageContent x) ds))
      @ LF @ ''    '' \<and>
    (\<forall>d \<in> set docs. sublist (pageContent d) (prompt docs)) \<and>
    sublist ''Use the provided documents to answer user queries.'' (SYSTEM_PROMPT docs) \<and>
    sublist ''Do not mention document sources in your answer.'' (SYSTEM_PROMPT docs) \<and>
    \<not> sublist ''only'' (SYSTEM_PROMPT []) \<and>
    sublist ''dont say in answer about document you get answer'' (SYSTEM_PROMPT_local docs) \<and>
    sublist ''only you can answer from docs and basic formal replies''
      (SYSTEM_PROMPT_local docs)"
  using assms(1)
proof (elim disjE)
  assume "(h, prompt) = (chat, SYSTEM_PROMPT)"
  then have h: "h = chat" and p: "prompt = SYSTEM_PROMPT"
    by simp_all
  show ?thesis
    unfolding h p
  proof (intro conjI ballI)
    show "filter is_model_call (trace (chat env (Some q))) =
        [AxiosPost (completion_request env (SYSTEM_PROMPT docs) q)]"
      by (rule chat_model_call [OF assms(2-5)])
    show "messages (completion_request env (SYSTEM_PROMPT docs) q) =
        [(''system'', SYSTEM_PROMPT docs), (''user'', q)]"
      by (simp add: completion_request_def)
    fix d assume "d \<in> set docs"
    then show "sublist (pageContent d) (SYSTEM_PROMPT docs)"
      by (rule prompt_keeps_each)
  qed (rule prompt_texts prompt_sentences cloud_instructions_without_only)+
next
  assume "(h, prompt) = (chat_local, SYSTEM_PROMPT_local)"
  then have h: "h = chat_local" and p: "prompt = SYSTEM_PROMPT_local"
    by simp_all
  show ?thesis
    unfolding h p
  proof (intro conjI ballI)
    show "filter is_model_call (trace (chat_local env (Some q))) =
        [AxiosPost (completion_request env (SYSTEM_PROMPT_local docs) q)]"
      by (rule chat_local_model_call [OF assms(2-5)])
    show "messages (completion_request env (SYSTEM_PROMPT_local docs) q) =
        [(''system'', SYSTEM_PROMPT_local docs), (''user'', q)]"
      by (simp add: completion_request_def)
    fix d assume "d \<in> set docs"
    then show "sublist (pageContent d) (SYSTEM_PROMPT_local docs)"
      by (rule prompt_keeps_each)
  qed (rule prompt_texts prompt_sentences cloud_instructions_without_only)+
qed

theorem system_prompt_is_instructions_then_chunks_sample:
  "filter is_model_call (trace (chat env_one_chunk (Some question))) =
     [AxiosPost (completion_request env_one_chunk (SYSTEM_PROMPT [page1]) question)] \<and>
   SYSTEM_PROMPT [page1] =
     LF @ ''      You are a helpful AI Agent. Use the provided documents to answer user queries.''
     @ LF @ ''      Do not mention document sources in your answer.''
     @ LF @ ''      Context: Gift ideas for spring.'' @ LF @ ''    '' \<and>
   sublist ''Gift ideas for spring.'' (SYSTEM_PROMPT [page1]) \<and>
   messages (completion_request env_ok (SYSTEM_PROMPT_local [page1, page2]) question) =
     [(''system'', SYSTEM_PROMPT_local [page1, page2]),
      (''user'', ''What should I give in spring?'')] \<and>
   SYSTEM_PROMPT_local [page1, page2] =
     LF @ ''      You are a helpful AI Agent. Use the provided documents to answer user queries.dont say in answer about document you get answer be professional''
     @ LF @ ''      Context, also dont answer question not in docs, only you can answer from docs and basic formal replies: Gift ideas for spring.''
     @ LF @ ''Wrap with care.'' @ LF @ ''    '' \<and>
   sublist ''Wrap with care.'' (SYSTEM_PROMPT_local [page1, page2])"
proof -
  have one: "question \<noteq> []" "newEmbeddings env_one_chunk modelName = Inr ()"
    "fromExistingCollection env_one_chunk (qdrant env_one_chunk) = Inr ()"
    "retriever_invoke env_one_chunk (qdrant env_one_chunk) 2 question = Inr [page1]"
    by (simp_all add: env_one_chunk_def env_ok_def question_def)
  have two: "question \<noteq> []" "newEmbeddings env_ok modelName = Inr ()"
    "fromExistingCollection env_ok (qdrant env_ok) = Inr ()"
    "retriever_invoke env_ok (qdrant env_ok) 2 question = Inr [page1, page2]"
    by (simp_all add: env_ok_def question_def)
  have cloud: "(chat, SYSTEM_PROMPT) = (chat, SYSTEM_PROMPT) \<or>
      (chat, SYSTEM_PROMPT) = (chat_local, SYSTEM_PROMPT_local)"
    by simp
  have direct: "(chat_local, SYSTEM_PROMPT_local) = (chat, SYSTEM_PROMPT) \<or>
      (chat_local, SYSTEM_PROMPT_local) = (chat_local, SYSTEM_PROMPT_local)"
    by simp
  have "page1 \<in> set [page1]" and "page2 \<in> set [page1, page2]"
    by simp_all
  with system_prompt_is_instructions_then_chunks [OF cloud one]
       system_prompt_is_instructions_then_chunks [OF direct two]
  have a: "filter is_model_call (trace (chat env_one_chunk (Some question))) =
      [AxiosPost (completion_request env_one_chunk (SYSTEM_PROMPT [page1]) question)]"
    and b: "SYSTEM_PROMPT [page1] =
      LF @ ''      You are a helpful AI Agent. Use the provided documents to answer user queries.''
      @ LF @ ''      Do not mention document sources in your answer.''
      @ LF @ ''      Context: ''
      @ (case [page1] of
           [] \<Rightarrow> []
         | d # ds \<Rightarrow> pageContent d @ concat (map (\<lambda>x. LF @ pageContent x) ds))
      @ LF @ ''    ''"
    and c: "sublist (pageContent page1) (SYSTEM_PROMPT [page1])"
    and d: "messages (completion_request env_ok (SYSTEM_PROMPT_local [page1, page2]) question) =
      [(''system'', SYSTEM_PROMPT_local [page1, page2]), (''user'', question)]"
    and f: "SYSTEM_PROMPT_local [page1, page2] =
      LF @ ''      You are a helpful AI Agent. Use the provided documents to answer user queries.dont say in answer about document you get answer be professional''
      @ LF @ ''      Context, also dont answer question not in docs, only you can answer from docs and basic formal replies: ''
      @ (case [page1, page2] of
           [] \<Rightarrow> []
         | d # ds \<Rightarrow> pageContent d @ concat (map (\<lambda>x. LF @ pageContent x) ds))
      @ LF @ ''    ''"
    and g: "sublist (pageContent page2) (SYSTEM_PROMPT_local [page1, page2])"
    by blast+
  have b': "SYSTEM_PROMPT [page1] =
     LF @ ''      You are a helpful AI Agent. Use the provided documents to answer user queries.''
     @ LF @ ''      Do not mention document sources in your answer.''
     @ LF @ ''      Context: Gift ideas for spring.'' @ LF @ ''    ''"
    using b by (simp add: page1_def)
  have c': "sublist ''Gift ideas for spring.'' (SYSTEM_PROMPT [page1])"
    using c by (simp add: page1_def)
  have d': "messages (completion_request env_ok (SYSTEM_PROMPT_local [page1, page2]) question) =
     [(''system'', SYSTEM_PROMPT_local [page1, page2]),
      (''user'', ''What should I give in spring?'')]"
    using d by (simp add: question_def)
  have f': "SYSTEM_PROMPT_local [page1, page2] =
     LF @ ''      You are a helpful AI Agent. Use the provided documents to answer user queries.dont say in answer about document you get answer be professional''
     @ LF @ ''      Context, also dont answer question not in docs, only you can answer from docs and basic formal replies: Gift ideas for spring.''
     @ LF @ ''Wrap with care.'' @ LF @ ''    ''"
    using f by (simp add: page1_def page2_def)
  have g': "sublist ''Wrap with care.'' (SYSTEM_PROMPT_local [page1, page2])"
    using g by (simp add: page2_def)
  from a b' c' d' f' g' show ?thesis
    by blast
qed

text \<open>
  The statement of C9 that the system instruction tells the model to answer only from the
  context does not hold on the cloud-storage server: this is the whole system message it
  sends for the two sample documents, and the word "only" is not in it.
\<close>

theorem cloud_prompt_does_not_restrict_answers:
  "filter is_model_call (trace (chat env_ok (Some question))) =
     [AxiosPost (completion_request env_ok (SYSTEM_PROMPT [page1, page2]) question)] \<and>
   messages (completion_request env_ok (SYSTEM_PROMPT [page1, page2]) question) =
     [(''system'', SYSTEM_PROMPT [page1, page2]), (''user'', question)] \<and>
   SYSTEM_PROMPT [page1, page2] =
     LF @ ''      You are a helpful AI Agent. Use the provided documents to answer user queries.''
     @ LF @ ''      Do not mention document sources in your answer.''
     @ LF @ ''      Context: Gift ideas for spring.'' @ LF @ ''Wrap with care.''
     @ LF @ ''    '' \<and>
   \<not> sublist ''only'' (SYSTEM_PROMPT [page1, page2]) \<and>
   \<not> sublist ''Only'' (SYSTEM_PROMPT [page1, page2])"
proof -
  have sent: "filter is_model_call (trace (chat env_ok (Some question))) =
     [AxiosPost (completion_request env_ok (SYSTEM_PROMPT [page1, page2]) question)]"
    by (rule chat_model_call) (simp_all add: env_ok_def question_def)
  have literal: "SYSTEM_PROMPT [page1, page2] =
     LF @ ''      You are a helpful AI Agent. Use the provided documents to answer user queries.''
     @ LF @ ''      Do not mention document sources in your answer.''
     @ LF @ ''      Context: Gift ideas for spring.'' @ LF @ ''Wrap with care.''
     @ LF @ ''    ''"
    by (simp add: SYSTEM_PROMPT_def page1_def page2_def)
  have absent: "\<not> sublist ''only'' (SYSTEM_PROMPT [page1, page2])"
    "\<not> sublist ''Only'' (SYSTEM_PROMPT [page1, page2])"
    unfolding literal LF_def by (simp_all add: sublist_Cons_right)
  from sent literal absent show ?thesis
    by (simp add: completion_request_def)
qed

end
